theory Spec2Isabelle
  imports Main "HOL-Library.Sublist"
begin

section \<open>The gzip middleware for Negroni\<close>

text \<open>
  The repository holds two versions of the middleware. Both are embedded here, side by
  side, and told apart by a suffix:
  \<^item> \<open>_A\<close>: \<^verbatim>\<open>src/gzip/gzip.go\<close>, whose writer decides in \<^verbatim>\<open>compressContent\<close>, called
    from \<^verbatim>\<open>Write\<close> only, and whose deferred function also deletes Content-Length;
  \<^item> \<open>_B\<close>: \<^verbatim>\<open>src/unnamed/part_001\<close>, whose writer overrides \<^verbatim>\<open>WriteHeader\<close> and
    decides there, \<^verbatim>\<open>Write\<close> calling it with \<^verbatim>\<open>http.StatusOK\<close>.
\<close>

subsection \<open>Constants\<close>

definition encodingGzip :: string where "encodingGzip = ''gzip''"
definition headerAcceptEncoding :: string where "headerAcceptEncoding = ''Accept-Encoding''"
definition headerContentEncoding :: string where "headerContentEncoding = ''Content-Encoding''"
definition headerContentLength :: string where "headerContentLength = ''Content-Length''"
definition headerContentType :: string where "headerContentType = ''Content-Type''"
definition headerVary :: string where "headerVary = ''Vary''"
definition headerSecWebSocketKey :: string where "headerSecWebSocketKey = ''Sec-WebSocket-Key''"

definition BestCompression :: int where "BestCompression = 9"
definition BestSpeed :: int where "BestSpeed = 1"
definition DefaultCompression :: int where "DefaultCompression = - 1"
definition NoCompression :: int where "NoCompression = 0"
definition StatusOK :: int where "StatusOK = 200"

text \<open>
  \<^verbatim>\<open>type status int\<close> with its three \<^verbatim>\<open>iota\<close> constants. The first constant is named
  \<^verbatim>\<open>COMPRESSION_UNDEFINED\<close> in version A and \<^verbatim>\<open>COMPRESSION_CHECK\<close> in version B.
\<close>

datatype status = COMPRESSION_UNDEFINED | COMPRESSION_DISABLED | COMPRESSION_ENABLED

abbreviation COMPRESSION_CHECK :: status where "COMPRESSION_CHECK \<equiv> COMPRESSION_UNDEFINED"

subsection \<open>What the code uses of \<^verbatim>\<open>strings\<close> and \<^verbatim>\<open>net/http\<close>\<close>

type_synonym bytes = string

text \<open>\<^verbatim>\<open>strings.Contains(s, substr)\<close>: \<open>substr\<close> occurs in \<open>s\<close> at some offset.\<close>

fun Contains :: "string \<Rightarrow> string \<Rightarrow> bool" where
  "Contains [] substr = (substr = [])"
| "Contains (c # cs) substr = (prefix substr (c # cs) \<or> Contains cs substr)"

text \<open>
  \<^verbatim>\<open>http.Header\<close> is \<^verbatim>\<open>map[string][]string\<close>. Its methods \<^verbatim>\<open>Get\<close>, \<^verbatim>\<open>Set\<close> and \<^verbatim>\<open>Del\<close>
  canonicalise the key first: a key made of header-token bytes gets an upper-case
  letter at the start and after each hyphen and lower-case letters elsewhere; any other
  key is left as it is. \<^verbatim>\<open>Get\<close> returns the first value stored under the key, or the
  empty string.
\<close>

type_synonym header = "string \<rightharpoonup> string list"

definition isLower :: "char \<Rightarrow> bool" where
  "isLower c = (97 \<le> (of_char c :: nat) \<and> (of_char c :: nat) \<le> 122)"

definition isUpper :: "char \<Rightarrow> bool" where
  "isUpper c = (65 \<le> (of_char c :: nat) \<and> (of_char c :: nat) \<le> 90)"

definition isDigit :: "char \<Rightarrow> bool" where
  "isDigit c = (48 \<le> (of_char c :: nat) \<and> (of_char c :: nat) \<le> 57)"

definition validHeaderFieldByte :: "char \<Rightarrow> bool" where
  "validHeaderFieldByte c =
     (isLower c \<or> isUpper c \<or> isDigit c \<or> c \<in> set ''!#$%&*+-.^_`|~'' \<or> c = CHR 0x27)"

definition canonicalByte :: "bool \<Rightarrow> char \<Rightarrow> char" where
  "canonicalByte upper c =
     (if upper \<and> isLower c then char_of ((of_char c :: nat) - 32)
      else if \<not> upper \<and> isUpper c then char_of ((of_char c :: nat) + 32)
      else c)"

fun canonicalMIMEHeaderKey :: "bool \<Rightarrow> string \<Rightarrow> string" where
  "canonicalMIMEHeaderKey upper [] = []"
| "canonicalMIMEHeaderKey upper (c # cs) =
     canonicalByte upper c # canonicalMIMEHeaderKey (canonicalByte upper c = CHR ''-'') cs"

definition CanonicalHeaderKey :: "string \<Rightarrow> string" where
  "CanonicalHeaderKey s =
     (if list_all validHeaderFieldByte s then canonicalMIMEHeaderKey True s else s)"

definition Header_Get :: "header \<Rightarrow> string \<Rightarrow> string" where
  "Header_Get h key =
     (case h (CanonicalHeaderKey key) of
        None \<Rightarrow> []
      | Some [] \<Rightarrow> []
      | Some (v # _) \<Rightarrow> v)"

definition Header_Set :: "header \<Rightarrow> string \<Rightarrow> string \<Rightarrow> header" where
  "Header_Set h key v = h(CanonicalHeaderKey key \<mapsto> [v])"

definition Header_Del :: "header \<Rightarrow> string \<Rightarrow> header" where
  "Header_Del h key = h(CanonicalHeaderKey key := None)"

record request =
  Method :: string
  URL :: string
  Header :: header

text \<open>
  The \<^verbatim>\<open>http.ResponseWriter\<close> that \<^verbatim>\<open>ServeHTTP\<close> receives (an
  \<^verbatim>\<open>httptest.ResponseRecorder\<close> in the tests): its header map, the status code and the
  header map as they were when the header was committed, and the body bytes received so
  far. The first \<^verbatim>\<open>WriteHeader\<close> commits, later ones change nothing; a \<^verbatim>\<open>Write\<close> before
  any \<^verbatim>\<open>WriteHeader\<close> commits with \<^verbatim>\<open>http.StatusOK\<close> first. Writes to it are taken to
  succeed, so the byte count and the \<^verbatim>\<open>nil\<close> error that every \<^verbatim>\<open>Write\<close> hands back to its
  caller are left out of the model.
\<close>

record sink =
  headers :: header
  wroteHeader :: "(int \<times> header) option"
  body :: bytes

definition sink_WriteHeader :: "sink \<Rightarrow> int \<Rightarrow> sink" where
  "sink_WriteHeader s code =
     (case wroteHeader s of
        None \<Rightarrow> s\<lparr>wroteHeader := Some (code, headers s)\<rparr>
      | Some _ \<Rightarrow> s)"

definition sink_Write :: "sink \<Rightarrow> bytes \<Rightarrow> sink" where
  "sink_Write s b =
     (let s1 = (if wroteHeader s = None then sink_WriteHeader s StatusOK else s)
      in s1\<lparr>body := body s1 @ b\<rparr>)"

subsection \<open>What the code uses of \<^verbatim>\<open>negroni\<close>, \<^verbatim>\<open>compress/gzip\<close> and content sniffing\<close>

text \<open>
  \<^verbatim>\<open>negroni.NewResponseWriter(w)\<close> wraps the sink and records the status code and the
  number of body bytes that went through it. Its \<^verbatim>\<open>Write\<close> calls its own \<^verbatim>\<open>WriteHeader\<close>
  with \<^verbatim>\<open>http.StatusOK\<close> when no status was recorded yet. Functions registered with its
  \<^verbatim>\<open>Before\<close> are not modelled.
\<close>

record responseWriter =
  ResponseWriter :: sink
  rw_status :: int
  rw_size :: int

definition NewResponseWriter :: "sink \<Rightarrow> responseWriter" where
  "NewResponseWriter w = \<lparr>ResponseWriter = w, rw_status = 0, rw_size = 0\<rparr>"

definition Written :: "responseWriter \<Rightarrow> bool" where
  "Written rw = (rw_status rw \<noteq> 0)"

definition rw_WriteHeader :: "responseWriter \<Rightarrow> int \<Rightarrow> responseWriter" where
  "rw_WriteHeader rw s =
     rw\<lparr>ResponseWriter := sink_WriteHeader (ResponseWriter rw) s, rw_status := s\<rparr>"

definition rw_Write :: "responseWriter \<Rightarrow> bytes \<Rightarrow> responseWriter" where
  "rw_Write rw b =
     (let rw1 = (if \<not> Written rw then rw_WriteHeader rw StatusOK else rw)
      in rw1\<lparr>ResponseWriter := sink_Write (ResponseWriter rw1) b,
             rw_size := rw_size rw1 + int (length b)\<rparr>)"

text \<open>
  The library primitives are parameters of the model: \<^verbatim>\<open>gzip.NewWriterLevel\<close> (\<open>None\<close>
  when it returns an error), \<^verbatim>\<open>(*gzip.Writer).Write\<close> and \<^verbatim>\<open>Close\<close> as functions of the
  codec's state \<open>'z\<close> that return the chunks the codec writes to the sink, and
  \<^verbatim>\<open>http.DetectContentType\<close>.
\<close>

record 'z lib =
  NewWriterLevel :: "int \<Rightarrow> 'z option"
  gzWrite :: "'z \<Rightarrow> bytes \<Rightarrow> 'z \<times> bytes list"
  gzClose :: "'z \<Rightarrow> bytes list"
  DetectContentType :: "bytes \<Rightarrow> string"

subsection \<open>The writer\<close>

text \<open>
  \<^verbatim>\<open>AllowCompressionFunc\<close> receives the writer and the request. It is modelled as a
  function that reads them and returns its verdict, without calling the writer or
  changing its header map; \<open>None\<close> is the \<^verbatim>\<open>nil\<close> callback.
\<close>

type_synonym AllowCompressionFunc = "responseWriter \<Rightarrow> request \<Rightarrow> bool"

text \<open>
  The calls the writer makes, in order. The trace is not a field of the Go struct and no
  function of the model reads it; it is there to state how often and in which order the
  writer calls its collaborators.
\<close>

datatype event =
    EvAllow
  | EvHeaderSet string string
  | EvHeaderDel string
  | EvWriteHeader int
  | EvWrite bytes
  | EvGzWrite bytes
  | EvGzClose

record 'z gzipResponseWriter =
  req :: request
  gz :: 'z
  nrw :: responseWriter
  status :: status
  allowCompression :: "AllowCompressionFunc option"
  trace :: "event list"

text \<open>\<^verbatim>\<open>grw.Header()\<close> is the sink's header map, reached through the embedded writer.\<close>

definition Header_of :: "'z gzipResponseWriter \<Rightarrow> header" where
  "Header_of grw = headers (ResponseWriter (nrw grw))"

definition map_sink :: "(sink \<Rightarrow> sink) \<Rightarrow> 'z gzipResponseWriter \<Rightarrow> 'z gzipResponseWriter" where
  "map_sink f grw = grw\<lparr>nrw := (nrw grw)\<lparr>ResponseWriter := f (ResponseWriter (nrw grw))\<rparr>\<rparr>"

definition map_Header :: "(header \<Rightarrow> header) \<Rightarrow> 'z gzipResponseWriter \<Rightarrow> 'z gzipResponseWriter" where
  "map_Header f grw = map_sink (\<lambda>s. s\<lparr>headers := f (headers s)\<rparr>) grw"

definition log :: "event \<Rightarrow> 'z gzipResponseWriter \<Rightarrow> 'z gzipResponseWriter" where
  "log e grw = grw\<lparr>trace := trace grw @ [e]\<rparr>"

definition grw_Set :: "string \<Rightarrow> string \<Rightarrow> 'z gzipResponseWriter \<Rightarrow> 'z gzipResponseWriter" where
  "grw_Set key v grw = log (EvHeaderSet key v) (map_Header (\<lambda>h. Header_Set h key v) grw)"

definition grw_Del :: "string \<Rightarrow> 'z gzipResponseWriter \<Rightarrow> 'z gzipResponseWriter" where
  "grw_Del key grw = log (EvHeaderDel key) (map_Header (\<lambda>h. Header_Del h key) grw)"

text \<open>
  \<^verbatim>\<open>grw.allowCompression == nil || grw.allowCompression(grw, grw.r)\<close>: the callback is
  called only when it is not \<^verbatim>\<open>nil\<close>.
\<close>

definition allowed :: "'z gzipResponseWriter \<Rightarrow> bool" where
  "allowed grw =
     (case allowCompression grw of None \<Rightarrow> True | Some fn \<Rightarrow> fn (nrw grw) (req grw))"

definition log_allow :: "'z gzipResponseWriter \<Rightarrow> 'z gzipResponseWriter" where
  "log_allow grw = (case allowCompression grw of None \<Rightarrow> grw | Some _ \<Rightarrow> log EvAllow grw)"

text \<open>\<^verbatim>\<open>grw.ResponseWriter.WriteHeader(code)\<close> and \<^verbatim>\<open>grw.ResponseWriter.Write(b)\<close>.\<close>

definition forward_WriteHeader :: "int \<Rightarrow> 'z gzipResponseWriter \<Rightarrow> 'z gzipResponseWriter" where
  "forward_WriteHeader code grw = log (EvWriteHeader code) (grw\<lparr>nrw := rw_WriteHeader (nrw grw) code\<rparr>)"

definition forward_Write :: "bytes \<Rightarrow> 'z gzipResponseWriter \<Rightarrow> 'z gzipResponseWriter" where
  "forward_Write b grw = log (EvWrite b) (grw\<lparr>nrw := rw_Write (nrw grw) b\<rparr>)"

text \<open>\<^verbatim>\<open>grw.w.Write(b)\<close>: the codec writes its chunks to the sink it was created on.\<close>

definition gz_Write :: "'z lib \<Rightarrow> bytes \<Rightarrow> 'z gzipResponseWriter \<Rightarrow> 'z gzipResponseWriter" where
  "gz_Write L b grw =
     (case gzWrite L (gz grw) b of
        (z, out) \<Rightarrow> log (EvGzWrite b) (map_sink (\<lambda>s. foldl sink_Write s out) (grw\<lparr>gz := z\<rparr>)))"

definition gz_Close :: "'z lib \<Rightarrow> 'z gzipResponseWriter \<Rightarrow> 'z gzipResponseWriter" where
  "gz_Close L grw = log EvGzClose (map_sink (\<lambda>s. foldl sink_Write s (gzClose L (gz grw))) grw)"

text \<open>
  The statement both versions of \<^verbatim>\<open>Write\<close> share:
  \<^verbatim>\<open>if len(grw.Header().Get(headerContentType)) == 0 { grw.Header().Set(headerContentType, http.DetectContentType(b)) }\<close>.
\<close>

definition sniffContentType :: "'z lib \<Rightarrow> bytes \<Rightarrow> 'z gzipResponseWriter \<Rightarrow> 'z gzipResponseWriter" where
  "sniffContentType L b grw =
     (if length (Header_Get (Header_of grw) headerContentType) = 0
      then grw_Set headerContentType (DetectContentType L b) grw
      else grw)"

subsubsection \<open>Version A: \<^verbatim>\<open>src/gzip/gzip.go\<close>\<close>

definition compressContent_A :: "'z gzipResponseWriter \<Rightarrow> bool \<times> 'z gzipResponseWriter" where
  "compressContent_A grw =
     (let grw1 =
        (if status grw = COMPRESSION_UNDEFINED then
           (if allowed grw then
              grw_Set headerVary headerAcceptEncoding
                (grw_Set headerContentEncoding encodingGzip
                  ((log_allow grw)\<lparr>status := COMPRESSION_ENABLED\<rparr>))
            else (log_allow grw)\<lparr>status := COMPRESSION_DISABLED\<rparr>)
         else grw)
      in (status grw1 = COMPRESSION_ENABLED, grw1))"

definition Write_A :: "'z lib \<Rightarrow> bytes \<Rightarrow> 'z gzipResponseWriter \<Rightarrow> 'z gzipResponseWriter" where
  "Write_A L b grw =
     (case compressContent_A (sniffContentType L b grw) of
        (c, grw2) \<Rightarrow> if c then gz_Write L b grw2 else forward_Write b grw2)"

subsubsection \<open>Version B: \<^verbatim>\<open>src/unnamed/part_001\<close>\<close>

definition WriteHeader_B :: "int \<Rightarrow> 'z gzipResponseWriter \<Rightarrow> 'z gzipResponseWriter" where
  "WriteHeader_B code grw =
     (let grw1 =
        (if status grw = COMPRESSION_CHECK then
           (if allowed grw then
              grw_Set headerVary headerAcceptEncoding
                (grw_Set headerContentEncoding encodingGzip
                  (grw_Del headerContentLength
                    ((log_allow grw)\<lparr>status := COMPRESSION_ENABLED\<rparr>)))
            else (log_allow grw)\<lparr>status := COMPRESSION_DISABLED\<rparr>)
         else grw)
      in forward_WriteHeader code grw1)"

definition Write_B :: "'z lib \<Rightarrow> bytes \<Rightarrow> 'z gzipResponseWriter \<Rightarrow> 'z gzipResponseWriter" where
  "Write_B L b grw =
     (let grw1 =
        (if status grw = COMPRESSION_CHECK then
           WriteHeader_B StatusOK (sniffContentType L b grw)
         else grw)
      in if status grw1 = COMPRESSION_ENABLED then gz_Write L b grw1 else forward_Write b grw1)"

subsection \<open>The next handler\<close>

text \<open>
  \<^verbatim>\<open>next\<close> is any \<^verbatim>\<open>http.HandlerFunc\<close>. What it does to the writer it is given is a
  sequence of calls: it changes the header map obtained from \<^verbatim>\<open>Header()\<close> (any change,
  so a function on header maps), calls \<^verbatim>\<open>WriteHeader\<close>, or calls \<^verbatim>\<open>Write\<close>. A statement
  about every call sequence covers every handler, whatever it looks at to choose its
  calls.
\<close>

datatype call = Mutate "header \<Rightarrow> header" | CallWriteHeader int | CallWrite bytes

type_synonym HandlerFunc = "call list"

fun call_raw :: "sink \<Rightarrow> call \<Rightarrow> sink" where
  "call_raw w (Mutate f) = w\<lparr>headers := f (headers w)\<rparr>"
| "call_raw w (CallWriteHeader code) = sink_WriteHeader w code"
| "call_raw w (CallWrite b) = sink_Write w b"

text \<open>Version A does not override \<^verbatim>\<open>WriteHeader\<close>: the call goes to the embedded writer.\<close>

fun call_A :: "'z lib \<Rightarrow> 'z gzipResponseWriter \<Rightarrow> call \<Rightarrow> 'z gzipResponseWriter" where
  "call_A L grw (Mutate f) = map_Header f grw"
| "call_A L grw (CallWriteHeader code) = grw\<lparr>nrw := rw_WriteHeader (nrw grw) code\<rparr>"
| "call_A L grw (CallWrite b) = Write_A L b grw"

fun call_B :: "'z lib \<Rightarrow> 'z gzipResponseWriter \<Rightarrow> call \<Rightarrow> 'z gzipResponseWriter" where
  "call_B L grw (Mutate f) = map_Header f grw"
| "call_B L grw (CallWriteHeader code) = WriteHeader_B code grw"
| "call_B L grw (CallWrite b) = Write_B L b grw"

definition next_raw :: "sink \<Rightarrow> HandlerFunc \<Rightarrow> sink" where
  "next_raw w nxt = foldl call_raw w nxt"

definition next_A :: "'z lib \<Rightarrow> 'z gzipResponseWriter \<Rightarrow> HandlerFunc \<Rightarrow> 'z gzipResponseWriter" where
  "next_A L grw nxt = foldl (call_A L) grw nxt"

definition next_B :: "'z lib \<Rightarrow> 'z gzipResponseWriter \<Rightarrow> HandlerFunc \<Rightarrow> 'z gzipResponseWriter" where
  "next_B L grw nxt = foldl (call_B L) grw nxt"

text \<open>The bytes the handler passes to \<^verbatim>\<open>Write\<close>, and the header map its own changes give.\<close>

fun payloads :: "HandlerFunc \<Rightarrow> bytes list" where
  "payloads [] = []"
| "payloads (Mutate f # cs) = payloads cs"
| "payloads (CallWriteHeader code # cs) = payloads cs"
| "payloads (CallWrite b # cs) = b # payloads cs"

definition written :: "HandlerFunc \<Rightarrow> bytes" where
  "written nxt = concat (payloads nxt)"

fun own_headers :: "header \<Rightarrow> HandlerFunc \<Rightarrow> header" where
  "own_headers h [] = h"
| "own_headers h (Mutate f # cs) = own_headers (f h) cs"
| "own_headers h (CallWriteHeader code # cs) = own_headers h cs"
| "own_headers h (CallWrite b # cs) = own_headers h cs"

subsection \<open>The handler\<close>

record handler =
  compressionLevel :: int
  h_allowCompression :: "AllowCompressionFunc option"

definition New :: "int \<Rightarrow> AllowCompressionFunc option \<Rightarrow> handler" where
  "New level fn = \<lparr>compressionLevel = level, h_allowCompression = fn\<rparr>"

definition Default :: handler where
  "Default = New DefaultCompression None"

text \<open>
  What \<^verbatim>\<open>ServeHTTP\<close> leaves behind: either it called \<^verbatim>\<open>next(w, r)\<close> on the sink itself, or
  it called \<^verbatim>\<open>next(&grw, r)\<close> and ran its deferred function.
\<close>

datatype 'z outcome = Passthrough sink | Wrapped "'z gzipResponseWriter"

fun final_sink :: "'z outcome \<Rightarrow> sink" where
  "final_sink (Passthrough w) = w"
| "final_sink (Wrapped grw) = ResponseWriter (nrw grw)"

fun final_status :: "'z outcome \<Rightarrow> status option" where
  "final_status (Passthrough w) = None"
| "final_status (Wrapped grw) = Some (status grw)"

fun final_trace :: "'z outcome \<Rightarrow> event list" where
  "final_trace (Passthrough w) = []"
| "final_trace (Wrapped grw) = trace grw"

definition new_grw ::
  "request \<Rightarrow> 'z \<Rightarrow> sink \<Rightarrow> AllowCompressionFunc option \<Rightarrow> 'z gzipResponseWriter" where
  "new_grw r z w fn =
     \<lparr>req = r, gz = z, nrw = NewResponseWriter w, status = COMPRESSION_UNDEFINED,
      allowCompression = fn, trace = []\<rparr>"

definition deferred_A :: "'z lib \<Rightarrow> 'z gzipResponseWriter \<Rightarrow> 'z gzipResponseWriter" where
  "deferred_A L grw =
     (if status grw = COMPRESSION_ENABLED
      then grw_Del headerContentLength (gz_Close L grw)
      else grw)"

definition deferred_B :: "'z lib \<Rightarrow> 'z gzipResponseWriter \<Rightarrow> 'z gzipResponseWriter" where
  "deferred_B L grw = (if status grw = COMPRESSION_ENABLED then gz_Close L grw else grw)"

definition ServeHTTP_A ::
  "'z lib \<Rightarrow> handler \<Rightarrow> sink \<Rightarrow> request \<Rightarrow> HandlerFunc \<Rightarrow> 'z outcome" where
  "ServeHTTP_A L h w r nxt =
     (if \<not> Contains (Header_Get (Header r) headerAcceptEncoding) encodingGzip
      then Passthrough (next_raw w nxt)
      else if length (Header_Get (Header r) headerSecWebSocketKey) > 0
      then Passthrough (next_raw w nxt)
      else if Header_Get (headers w) headerContentEncoding = encodingGzip
      then Passthrough (next_raw w nxt)
      else case NewWriterLevel L (compressionLevel h) of
             None \<Rightarrow> Passthrough (next_raw w nxt)
           | Some z \<Rightarrow>
               Wrapped (deferred_A L (next_A L (new_grw r z w (h_allowCompression h)) nxt)))"

definition ServeHTTP_B ::
  "'z lib \<Rightarrow> handler \<Rightarrow> sink \<Rightarrow> request \<Rightarrow> HandlerFunc \<Rightarrow> 'z outcome" where
  "ServeHTTP_B L h w r nxt =
     (if \<not> Contains (Header_Get (Header r) headerAcceptEncoding) encodingGzip
      then Passthrough (next_raw w nxt)
      else if length (Header_Get (Header r) headerSecWebSocketKey) > 0
      then Passthrough (next_raw w nxt)
      else if Header_Get (headers w) headerContentEncoding = encodingGzip
      then Passthrough (next_raw w nxt)
      else case NewWriterLevel L (compressionLevel h) of
             None \<Rightarrow> Passthrough (next_raw w nxt)
           | Some z \<Rightarrow>
               Wrapped (deferred_B L (next_B L (new_grw r z w (h_allowCompression h)) nxt)))"

subsection \<open>Observations used in the statements\<close>

text \<open>The body bytes the sink received while \<^verbatim>\<open>ServeHTTP\<close> ran.\<close>

definition sent :: "sink \<Rightarrow> sink \<Rightarrow> bytes" where
  "sent w w' = drop (length (body w)) (body w')"

text \<open>The calls that decide: \<^verbatim>\<open>Write\<close> in version A, \<^verbatim>\<open>WriteHeader\<close> and \<^verbatim>\<open>Write\<close> in version B.\<close>

fun trigger_A :: "call \<Rightarrow> bool" where
  "trigger_A (Mutate f) = False"
| "trigger_A (CallWriteHeader code) = False"
| "trigger_A (CallWrite b) = True"

fun trigger_B :: "call \<Rightarrow> bool" where
  "trigger_B (Mutate f) = False"
| "trigger_B (CallWriteHeader code) = True"
| "trigger_B (CallWrite b) = True"


text \<open>What the trace gains when the callback is consulted, and when \<^verbatim>\<open>Write\<close> sniffs.\<close>

definition allow_events :: "'z gzipResponseWriter \<Rightarrow> event list" where
  "allow_events g = (case allowCompression g of None \<Rightarrow> [] | Some fn \<Rightarrow> [EvAllow])"

definition sniff_events :: "'z lib \<Rightarrow> bytes \<Rightarrow> 'z gzipResponseWriter \<Rightarrow> event list" where
  "sniff_events L b g =
     (if Header_Get (Header_of g) headerContentType = []
      then [EvHeaderSet headerContentType (DetectContentType L b)] else [])"

text \<open>
  The codec's contract: what a writer made by \<^verbatim>\<open>NewWriterLevel\<close> sends to its sink over
  a sequence of \<^verbatim>\<open>Write\<close> calls and the final \<^verbatim>\<open>Close\<close>, and that the matching decoder
  gives the written bytes back.
\<close>

fun gzStream :: "'z lib \<Rightarrow> 'z \<Rightarrow> bytes list \<Rightarrow> bytes" where
  "gzStream L z [] = concat (gzClose L z)"
| "gzStream L z (b # bs) = (case gzWrite L z b of (z', out) \<Rightarrow> concat out @ gzStream L z' bs)"


subsection \<open>The fixtures of the test file\<close>

text \<open>From \<^verbatim>\<open>src/unnamed/part_000\<close>: the constants, the handler under test, a fresh recorder
  and the request the tests build.\<close>

definition gzipTestString :: string where "gzipTestString = ''Foobar Wibble Content''"
definition gzipTestWebSocketKey :: string where "gzipTestWebSocketKey = ''Test''"
definition gzipInvalidCompressionLevel :: int where "gzipInvalidCompressionLevel = 11"

definition testHTTPContent :: HandlerFunc where
  "testHTTPContent = [CallWrite gzipTestString]"

definition NewRecorder :: sink where
  "NewRecorder = \<lparr>headers = Map.empty, wroteHeader = None, body = []\<rparr>"

definition NewRequest :: request where
  "NewRequest = \<lparr>Method = ''GET'', URL = ''http://localhost/foobar'', Header = Map.empty\<rparr>"

definition gzipRequest :: request where
  "gzipRequest = NewRequest\<lparr>Header := Header_Set (Header NewRequest) headerAcceptEncoding encodingGzip\<rparr>"

text \<open>
  A small library to run the model on: its codec accepts the levels \<open>-2\<close> to \<open>9\<close>,
  sends a two-byte magic number before the first data, the data as they are, and one
  closing byte; its decoder undoes that. Its content sniffing answers text.
\<close>

definition storedMagic :: bytes where "storedMagic = [CHR 0x1F, CHR 0x8B]"
definition storedTrailer :: bytes where "storedTrailer = [CHR 0x00]"

definition storedLib :: "bool lib" where
  "storedLib =
     \<lparr>NewWriterLevel = (\<lambda>level. if level < - 2 \<or> 9 < level then None else Some False),
      gzWrite = (\<lambda>z b. (True, (if z then [] else [storedMagic]) @ [b])),
      gzClose = (\<lambda>z. (if z then [] else [storedMagic]) @ [storedTrailer]),
      DetectContentType = (\<lambda>b. ''text/plain; charset=utf-8'')\<rparr>"

definition storedGunzip :: "bytes \<Rightarrow> bytes option" where
  "storedGunzip s =
     (if prefix storedMagic s \<and> suffix storedTrailer (drop (length storedMagic) s)
      then Some (butlast (drop (length storedMagic) s))
      else None)"


text \<open>The body bytes of the sink behind a writer.\<close>

definition sink_body :: "'z gzipResponseWriter \<Rightarrow> bytes" where
  "sink_body g = body (ResponseWriter (nrw g))"

text \<open>
  The request of the WebSocket test, a recorder whose Content-Encoding is already
  \<open>gzip\<close>, and the handler of the test with a refusing callback.
\<close>

definition webSocketRequest :: request where
  "webSocketRequest =
     gzipRequest\<lparr>Header := Header_Set (Header gzipRequest) headerSecWebSocketKey gzipTestWebSocketKey\<rparr>"

definition recorderWithGzip :: sink where
  "recorderWithGzip =
     NewRecorder\<lparr>headers := Header_Set (headers NewRecorder) headerContentEncoding encodingGzip\<rparr>"

definition refusingHandler :: handler where
  "refusingHandler = New DefaultCompression (Some (\<lambda>w r. False))"


text \<open>
  A callback that allows compression when the Content-Type it reads is the one the small
  library sniffs, and a recorder whose Vary is already set.
\<close>

definition textOnly :: AllowCompressionFunc where
  "textOnly rw r =
     (Header_Get (headers (ResponseWriter rw)) headerContentType = ''text/plain; charset=utf-8'')"

definition recorderWithVary :: sink where
  "recorderWithVary =
     NewRecorder\<lparr>headers := Header_Set (headers NewRecorder) headerVary ''Accept-Language''\<rparr>"

text \<open>A recorder whose Content-Encoding is already set to the given value.\<close>

definition recorderEncoded :: "string \<Rightarrow> sink" where
  "recorderEncoded v =
     NewRecorder\<lparr>headers := Header_Set (headers NewRecorder) headerContentEncoding v\<rparr>"

section \<open>Properties\<close>

subsection \<open>The status field under each operation\<close>

lemma body_sink_WriteHeader: "body (sink_WriteHeader s code) = body s"
  by (simp add: sink_WriteHeader_def split: option.splits)

lemma headers_sink_WriteHeader: "headers (sink_WriteHeader s code) = headers s"
  by (simp add: sink_WriteHeader_def split: option.splits)

lemma body_sink_Write: "body (sink_Write s b) = body s @ b"
  by (simp add: sink_Write_def Let_def body_sink_WriteHeader)

lemma headers_sink_Write: "headers (sink_Write s b) = headers s"
  by (simp add: sink_Write_def Let_def headers_sink_WriteHeader)

lemma body_sink_Writes: "body (foldl sink_Write s out) = body s @ concat out"
  by (induction out arbitrary: s) (simp_all add: body_sink_Write)

lemma headers_sink_Writes: "headers (foldl sink_Write s out) = headers s"
  by (induction out arbitrary: s) (simp_all add: headers_sink_Write)

lemma status_map_sink: "status (map_sink f g) = status g"
  by (simp add: map_sink_def)

lemma status_map_Header: "status (map_Header f g) = status g"
  by (simp add: map_Header_def status_map_sink)

lemma status_log: "status (log e g) = status g"
  by (simp add: log_def)

lemma status_log_allow: "status (log_allow g) = status g"
  by (simp add: log_allow_def status_log split: option.splits)

lemma status_grw_Set: "status (grw_Set k v g) = status g"
  by (simp add: grw_Set_def status_log status_map_Header)

lemma status_grw_Del: "status (grw_Del k g) = status g"
  by (simp add: grw_Del_def status_log status_map_Header)

lemma status_forward_WriteHeader: "status (forward_WriteHeader code g) = status g"
  by (simp add: forward_WriteHeader_def status_log)

lemma status_forward_Write: "status (forward_Write b g) = status g"
  by (simp add: forward_Write_def status_log)

lemma status_gz_Write: "status (gz_Write L b g) = status g"
  by (simp add: gz_Write_def status_log status_map_sink split: prod.splits)

lemma status_gz_Close: "status (gz_Close L g) = status g"
  by (simp add: gz_Close_def status_log status_map_sink)

lemma status_sniffContentType: "status (sniffContentType L b g) = status g"
  by (simp add: sniffContentType_def status_grw_Set)

lemmas status_simps = status_map_sink status_map_Header status_log status_log_allow
  status_grw_Set status_grw_Del status_forward_WriteHeader status_forward_Write
  status_gz_Write status_gz_Close status_sniffContentType

lemma status_WriteHeader_B:
  "status (WriteHeader_B code g) =
     (if status g = COMPRESSION_CHECK
      then (if allowed g then COMPRESSION_ENABLED else COMPRESSION_DISABLED)
      else status g)"
  by (simp add: WriteHeader_B_def Let_def status_simps)

lemma status_Write_B:
  "status (Write_B L b g) =
     (if status g = COMPRESSION_CHECK
      then (if allowed (sniffContentType L b g) then COMPRESSION_ENABLED else COMPRESSION_DISABLED)
      else status g)"
  by (simp add: Write_B_def Let_def status_simps status_WriteHeader_B)

lemma status_compressContent_A:
  "status (snd (compressContent_A g)) =
     (if status g = COMPRESSION_UNDEFINED
      then (if allowed g then COMPRESSION_ENABLED else COMPRESSION_DISABLED)
      else status g)"
  by (simp add: compressContent_A_def Let_def status_simps)


lemma Write_A_alt:
  "Write_A L b g =
     (if status (snd (compressContent_A (sniffContentType L b g))) = COMPRESSION_ENABLED
      then gz_Write L b (snd (compressContent_A (sniffContentType L b g)))
      else forward_Write b (snd (compressContent_A (sniffContentType L b g))))"
  by (simp add: Write_A_def compressContent_A_def Let_def)

lemma status_Write_A:
  "status (Write_A L b g) =
     (if status g = COMPRESSION_UNDEFINED
      then (if allowed (sniffContentType L b g) then COMPRESSION_ENABLED else COMPRESSION_DISABLED)
      else status g)"
  by (simp add: Write_A_alt status_simps status_compressContent_A)

lemma status_call_B:
  "status (call_B L g c) =
     (if status g = COMPRESSION_CHECK \<and> trigger_B c
      then status (call_B L g c) else status g)"
  by (cases c) (simp_all add: status_simps status_WriteHeader_B status_Write_B)

lemma status_call_B_decided:
  "status g \<noteq> COMPRESSION_CHECK \<Longrightarrow> status (call_B L g c) = status g"
  by (cases c) (simp_all add: status_simps status_WriteHeader_B status_Write_B)

lemma status_call_B_idle:
  "\<not> trigger_B c \<Longrightarrow> status (call_B L g c) = status g"
  by (cases c) (simp_all add: status_simps)

lemma status_call_B_trigger:
  "trigger_B c \<Longrightarrow> status (call_B L g c) \<noteq> COMPRESSION_CHECK"
  by (cases c) (simp_all add: status_simps status_WriteHeader_B status_Write_B)

lemma status_call_A_decided:
  "status g \<noteq> COMPRESSION_UNDEFINED \<Longrightarrow> status (call_A L g c) = status g"
  by (cases c) (simp_all add: status_simps status_Write_A)

lemma status_call_A_idle:
  "\<not> trigger_A c \<Longrightarrow> status (call_A L g c) = status g"
  by (cases c) (simp_all add: status_simps)

lemma status_call_A_trigger:
  "trigger_A c \<Longrightarrow> status (call_A L g c) \<noteq> COMPRESSION_UNDEFINED"
  by (cases c) (simp_all add: status_simps status_Write_A)

lemma next_B_Nil: "next_B L g [] = g"
  by (simp add: next_B_def)
lemma next_B_Cons: "next_B L g (c # cs) = next_B L (call_B L g c) cs"
  by (simp add: next_B_def)
lemma next_B_append: "next_B L g (cs @ ds) = next_B L (next_B L g cs) ds"
  by (simp add: next_B_def)
lemma next_A_Nil: "next_A L g [] = g"
  by (simp add: next_A_def)
lemma next_A_Cons: "next_A L g (c # cs) = next_A L (call_A L g c) cs"
  by (simp add: next_A_def)
lemma next_A_append: "next_A L g (cs @ ds) = next_A L (next_A L g cs) ds"
  by (simp add: next_A_def)

lemma status_next_B_decided:
  "status g \<noteq> COMPRESSION_CHECK \<Longrightarrow> status (next_B L g cs) = status g"
  by (induction cs arbitrary: g) (simp_all add: next_B_Nil next_B_Cons status_call_B_decided)

lemma status_next_B_idle:
  "\<forall>c \<in> set cs. \<not> trigger_B c \<Longrightarrow> status (next_B L g cs) = status g"
  by (induction cs arbitrary: g) (simp_all add: next_B_Nil next_B_Cons status_call_B_idle)

lemma status_next_A_decided:
  "status g \<noteq> COMPRESSION_UNDEFINED \<Longrightarrow> status (next_A L g cs) = status g"
  by (induction cs arbitrary: g) (simp_all add: next_A_Nil next_A_Cons status_call_A_decided)

lemma status_next_A_idle:
  "\<forall>c \<in> set cs. \<not> trigger_A c \<Longrightarrow> status (next_A L g cs) = status g"
  by (induction cs arbitrary: g) (simp_all add: next_A_Nil next_A_Cons status_call_A_idle)

subsection \<open>The callback, the codec state and the request under each operation\<close>

lemma allowCompression_simps:
  "allowCompression (map_sink f g) = allowCompression g"
  "allowCompression (map_Header h g) = allowCompression g"
  "allowCompression (log e g) = allowCompression g"
  "allowCompression (log_allow g) = allowCompression g"
  "allowCompression (grw_Set k v g) = allowCompression g"
  "allowCompression (grw_Del k g) = allowCompression g"
  "allowCompression (sniffContentType L b g) = allowCompression g"
  by (simp_all add: map_sink_def map_Header_def log_def log_allow_def grw_Set_def grw_Del_def
        sniffContentType_def split: option.splits)

subsection \<open>The trace under each operation\<close>

lemma trace_map_sink: "trace (map_sink f g) = trace g"
  by (simp add: map_sink_def)

lemma trace_map_Header: "trace (map_Header f g) = trace g"
  by (simp add: map_Header_def trace_map_sink)

lemma trace_log: "trace (log e g) = trace g @ [e]"
  by (simp add: log_def)

lemma trace_log_allow: "trace (log_allow g) = trace g @ allow_events g"
  by (simp add: log_allow_def allow_events_def trace_log split: option.splits)

lemma trace_grw_Set: "trace (grw_Set k v g) = trace g @ [EvHeaderSet k v]"
  by (simp add: grw_Set_def trace_log trace_map_Header)

lemma trace_grw_Del: "trace (grw_Del k g) = trace g @ [EvHeaderDel k]"
  by (simp add: grw_Del_def trace_log trace_map_Header)

lemma trace_forward_WriteHeader: "trace (forward_WriteHeader code g) = trace g @ [EvWriteHeader code]"
  by (simp add: forward_WriteHeader_def trace_log)

lemma trace_forward_Write: "trace (forward_Write b g) = trace g @ [EvWrite b]"
  by (simp add: forward_Write_def trace_log)

lemma trace_gz_Write: "trace (gz_Write L b g) = trace g @ [EvGzWrite b]"
  by (simp add: gz_Write_def trace_log trace_map_sink split: prod.splits)

lemma trace_gz_Close: "trace (gz_Close L g) = trace g @ [EvGzClose]"
  by (simp add: gz_Close_def trace_log trace_map_sink)

lemma trace_sniffContentType: "trace (sniffContentType L b g) = trace g @ sniff_events L b g"
  by (simp add: sniffContentType_def sniff_events_def trace_grw_Set)

lemma trace_status_update: "trace (g\<lparr>status := s\<rparr>) = trace g"
  by simp

lemmas trace_simps = trace_map_sink trace_map_Header trace_log trace_log_allow trace_grw_Set
  trace_grw_Del trace_forward_WriteHeader trace_forward_Write trace_gz_Write trace_gz_Close
  trace_sniffContentType

lemma trace_WriteHeader_B:
  "trace (WriteHeader_B code g) =
     trace g
     @ (if status g = COMPRESSION_CHECK
        then allow_events g
             @ (if allowed g
                then [EvHeaderDel headerContentLength,
                      EvHeaderSet headerContentEncoding encodingGzip,
                      EvHeaderSet headerVary headerAcceptEncoding]
                else [])
        else [])
     @ [EvWriteHeader code]"
  by (simp add: WriteHeader_B_def Let_def trace_simps)

lemma trace_Write_B:
  "trace (Write_B L b g) =
     trace g
     @ (if status g = COMPRESSION_CHECK
        then sniff_events L b g @ allow_events g
             @ (if allowed (sniffContentType L b g)
                then [EvHeaderDel headerContentLength,
                      EvHeaderSet headerContentEncoding encodingGzip,
                      EvHeaderSet headerVary headerAcceptEncoding]
                else [])
             @ [EvWriteHeader StatusOK]
        else [])
     @ [if status (Write_B L b g) = COMPRESSION_ENABLED then EvGzWrite b else EvWrite b]"
  by (simp add: Write_B_def Let_def trace_simps trace_WriteHeader_B status_simps
        status_WriteHeader_B allow_events_def allowCompression_simps)

lemma trace_compressContent_A:
  "trace (snd (compressContent_A g)) =
     trace g
     @ (if status g = COMPRESSION_UNDEFINED
        then allow_events g
             @ (if allowed g
                then [EvHeaderSet headerContentEncoding encodingGzip,
                      EvHeaderSet headerVary headerAcceptEncoding]
                else [])
        else [])"
  by (simp add: compressContent_A_def Let_def trace_simps)

lemma trace_Write_A:
  "trace (Write_A L b g) =
     trace g @ sniff_events L b g
     @ (if status g = COMPRESSION_UNDEFINED
        then allow_events g
             @ (if allowed (sniffContentType L b g)
                then [EvHeaderSet headerContentEncoding encodingGzip,
                      EvHeaderSet headerVary headerAcceptEncoding]
                else [])
        else [])
     @ [if status (Write_A L b g) = COMPRESSION_ENABLED then EvGzWrite b else EvWrite b]"
  by (simp add: Write_A_alt trace_simps trace_compressContent_A status_simps
        status_compressContent_A allow_events_def allowCompression_simps)

subsection \<open>The header map under each operation\<close>

lemma Header_of_map_Header: "Header_of (map_Header f g) = f (Header_of g)"
  by (simp add: Header_of_def map_Header_def map_sink_def)

lemma Header_of_log: "Header_of (log e g) = Header_of g"
  by (simp add: Header_of_def log_def)

lemma Header_of_log_allow: "Header_of (log_allow g) = Header_of g"
  by (simp add: log_allow_def Header_of_log split: option.splits)

lemma Header_of_status_update: "Header_of (g\<lparr>status := s\<rparr>) = Header_of g"
  by (simp add: Header_of_def)

lemma Header_of_grw_Set: "Header_of (grw_Set k v g) = Header_Set (Header_of g) k v"
  by (simp add: grw_Set_def Header_of_log Header_of_map_Header)

lemma Header_of_grw_Del: "Header_of (grw_Del k g) = Header_Del (Header_of g) k"
  by (simp add: grw_Del_def Header_of_log Header_of_map_Header)

lemma Header_of_forward_WriteHeader: "Header_of (forward_WriteHeader code g) = Header_of g"
  by (simp add: forward_WriteHeader_def Header_of_log)
     (simp add: Header_of_def rw_WriteHeader_def headers_sink_WriteHeader)

lemma headers_rw_Write: "headers (ResponseWriter (rw_Write rw b)) = headers (ResponseWriter rw)"
  by (simp add: rw_Write_def Let_def rw_WriteHeader_def headers_sink_Write headers_sink_WriteHeader)

lemma Header_of_forward_Write: "Header_of (forward_Write b g) = Header_of g"
  by (simp add: forward_Write_def Header_of_log) (simp add: Header_of_def headers_rw_Write)

lemma Header_of_gz_Write: "Header_of (gz_Write L b g) = Header_of g"
  by (simp add: gz_Write_def Header_of_log split: prod.splits)
     (simp add: Header_of_def map_sink_def headers_sink_Writes)

lemma Header_of_gz_Close: "Header_of (gz_Close L g) = Header_of g"
  by (simp add: gz_Close_def Header_of_log) (simp add: Header_of_def map_sink_def headers_sink_Writes)

lemma Header_of_sniffContentType:
  "Header_of (sniffContentType L b g) =
     (if Header_Get (Header_of g) headerContentType = []
      then Header_Set (Header_of g) headerContentType (DetectContentType L b)
      else Header_of g)"
  by (simp add: sniffContentType_def Header_of_grw_Set)

lemmas Header_of_simps = Header_of_map_Header Header_of_log Header_of_log_allow
  Header_of_status_update Header_of_grw_Set Header_of_grw_Del Header_of_forward_WriteHeader
  Header_of_forward_Write Header_of_gz_Write Header_of_gz_Close

lemma Header_of_WriteHeader_B:
  "Header_of (WriteHeader_B code g) =
     (if status g = COMPRESSION_CHECK \<and> allowed g
      then Header_Set (Header_Set (Header_Del (Header_of g) headerContentLength)
                         headerContentEncoding encodingGzip)
             headerVary headerAcceptEncoding
      else Header_of g)"
  by (simp add: WriteHeader_B_def Let_def Header_of_simps)

lemma Header_of_compressContent_A:
  "Header_of (snd (compressContent_A g)) =
     (if status g = COMPRESSION_UNDEFINED \<and> allowed g
      then Header_Set (Header_Set (Header_of g) headerContentEncoding encodingGzip)
             headerVary headerAcceptEncoding
      else Header_of g)"
  by (simp add: compressContent_A_def Let_def Header_of_simps)

lemma Header_of_Write_B:
  "Header_of (Write_B L b g) =
     (if status g = COMPRESSION_CHECK
      then Header_of (WriteHeader_B StatusOK (sniffContentType L b g))
      else Header_of g)"
  by (simp add: Write_B_def Let_def Header_of_simps)

lemma Header_of_Write_A:
  "Header_of (Write_A L b g) = Header_of (snd (compressContent_A (sniffContentType L b g)))"
  by (simp add: Write_A_alt Header_of_simps)


lemma Header_of_deferred_B: "Header_of (deferred_B L g) = Header_of g"
  by (simp add: deferred_B_def Header_of_simps)

subsection \<open>Canonical keys and evaluation on concrete inputs\<close>

lemma canon_CT: "CanonicalHeaderKey headerContentType = ''Content-Type''"
  by code_simp

lemma canon_WS: "CanonicalHeaderKey headerSecWebSocketKey = ''Sec-Websocket-Key''"
  by code_simp

lemma canon_CL: "CanonicalHeaderKey headerContentLength = ''Content-Length''"
  by code_simp

lemma canon_CE: "CanonicalHeaderKey headerContentEncoding = ''Content-Encoding''"
  by code_simp

lemma canon_AE: "CanonicalHeaderKey headerAcceptEncoding = ''Accept-Encoding''"
  by code_simp

lemma canon_Vary: "CanonicalHeaderKey headerVary = ''Vary''"
  by code_simp

lemmas canon_simps = canon_CT canon_WS canon_CL canon_CE canon_AE canon_Vary

lemma canon_lits:
  "CanonicalHeaderKey ''Content-Type'' = ''Content-Type''"
  "CanonicalHeaderKey ''Sec-WebSocket-Key'' = ''Sec-Websocket-Key''"
  "CanonicalHeaderKey ''Content-Length'' = ''Content-Length''"
  "CanonicalHeaderKey ''Content-Encoding'' = ''Content-Encoding''"
  "CanonicalHeaderKey ''Accept-Encoding'' = ''Accept-Encoding''"
  "CanonicalHeaderKey ''Vary'' = ''Vary''"
  by code_simp+

lemmas header_defs = Header_Get_def Header_Set_def Header_Del_def

lemmas const_defs = encodingGzip_def headerAcceptEncoding_def headerContentEncoding_def
  headerContentLength_def headerContentType_def headerVary_def headerSecWebSocketKey_def

lemmas writer_defs = Header_of_def map_sink_def map_Header_def log_def grw_Set_def grw_Del_def
  allowed_def log_allow_def forward_WriteHeader_def forward_Write_def gz_Write_def gz_Close_def
  sniffContentType_def compressContent_A_def Write_A_def WriteHeader_B_def Write_B_def
  sink_WriteHeader_def sink_Write_def rw_WriteHeader_def rw_Write_def Written_def
  NewResponseWriter_def new_grw_def deferred_A_def deferred_B_def next_raw_def next_A_def
  next_B_def ServeHTTP_A_def ServeHTTP_B_def New_def Default_def

lemmas fixture_defs = gzipTestString_def gzipTestWebSocketKey_def gzipInvalidCompressionLevel_def
  testHTTPContent_def NewRecorder_def NewRequest_def gzipRequest_def storedLib_def
  storedMagic_def storedTrailer_def storedGunzip_def DefaultCompression_def StatusOK_def

lemmas eval_defs = writer_defs fixture_defs header_defs const_defs canon_lits Let_def

subsection \<open>The compression header changes along a run\<close>







lemma status_deferred_A: "status (deferred_A L g) = status g"
  by (simp add: deferred_A_def status_simps)

lemma status_deferred_B: "status (deferred_B L g) = status g"
  by (simp add: deferred_B_def status_simps)

lemma trace_deferred_A:
  "trace (deferred_A L g) =
     trace g @ (if status g = COMPRESSION_ENABLED
                then [EvGzClose, EvHeaderDel headerContentLength] else [])"
  by (simp add: deferred_A_def trace_simps)

lemma trace_deferred_B:
  "trace (deferred_B L g) = trace g @ (if status g = COMPRESSION_ENABLED then [EvGzClose] else [])"
  by (simp add: deferred_B_def trace_simps)

lemma trace_new_grw: "trace (new_grw r z w fn) = []"
  by (simp add: new_grw_def)

lemma status_new_grw: "status (new_grw r z w fn) = COMPRESSION_UNDEFINED"
  by (simp add: new_grw_def)




subsection \<open>The body bytes and the codec state under each operation\<close>

lemma sink_body_map_Header: "sink_body (map_Header f g) = sink_body g"
  by (simp add: sink_body_def map_Header_def map_sink_def)

lemma sink_body_log: "sink_body (log e g) = sink_body g"
  by (simp add: sink_body_def log_def)

lemma sink_body_log_allow: "sink_body (log_allow g) = sink_body g"
  by (simp add: log_allow_def sink_body_log split: option.splits)

lemma sink_body_status_update: "sink_body (g\<lparr>status := s\<rparr>) = sink_body g"
  by (simp add: sink_body_def)

lemma sink_body_grw_Set: "sink_body (grw_Set k v g) = sink_body g"
  by (simp add: grw_Set_def sink_body_log sink_body_map_Header)

lemma sink_body_grw_Del: "sink_body (grw_Del k g) = sink_body g"
  by (simp add: grw_Del_def sink_body_log sink_body_map_Header)

lemma sink_body_sniffContentType: "sink_body (sniffContentType L b g) = sink_body g"
  by (simp add: sniffContentType_def sink_body_grw_Set)

lemma sink_body_rw_WriteHeader:
  "body (ResponseWriter (rw_WriteHeader rw code)) = body (ResponseWriter rw)"
  by (simp add: rw_WriteHeader_def body_sink_WriteHeader)

lemma sink_body_rw_Write: "body (ResponseWriter (rw_Write rw b)) = body (ResponseWriter rw) @ b"
  by (simp add: rw_Write_def Let_def body_sink_Write sink_body_rw_WriteHeader)

lemma sink_body_forward_WriteHeader: "sink_body (forward_WriteHeader code g) = sink_body g"
  by (simp add: forward_WriteHeader_def sink_body_log)
     (simp add: sink_body_def sink_body_rw_WriteHeader)

lemma sink_body_forward_Write: "sink_body (forward_Write b g) = sink_body g @ b"
  by (simp add: forward_Write_def sink_body_log) (simp add: sink_body_def sink_body_rw_Write)

lemma sink_body_gz_Write:
  "sink_body (gz_Write L b g) = sink_body g @ concat (snd (gzWrite L (gz g) b))"
  by (simp add: gz_Write_def sink_body_log split: prod.splits)
     (simp add: sink_body_def map_sink_def body_sink_Writes)

lemma sink_body_gz_Close: "sink_body (gz_Close L g) = sink_body g @ concat (gzClose L (gz g))"
  by (simp add: gz_Close_def sink_body_log) (simp add: sink_body_def map_sink_def body_sink_Writes)

lemmas sink_body_simps = sink_body_map_Header sink_body_log sink_body_log_allow
  sink_body_status_update sink_body_grw_Set sink_body_grw_Del sink_body_sniffContentType
  sink_body_forward_WriteHeader sink_body_forward_Write sink_body_gz_Write sink_body_gz_Close

lemma gz_simps:
  "gz (map_sink f g) = gz g"
  "gz (map_Header h g) = gz g"
  "gz (log e g) = gz g"
  "gz (log_allow g) = gz g"
  "gz (grw_Set k v g) = gz g"
  "gz (grw_Del k g) = gz g"
  "gz (sniffContentType L b g) = gz g"
  "gz (forward_WriteHeader code g) = gz g"
  "gz (forward_Write b g) = gz g"
  "gz (gz_Write L b g) = fst (gzWrite L (gz g) b)"
  "gz (gz_Close L g) = gz g"
  by (simp_all add: map_sink_def map_Header_def log_def log_allow_def grw_Set_def grw_Del_def
        sniffContentType_def forward_WriteHeader_def forward_Write_def gz_Write_def gz_Close_def
        split: option.splits prod.splits)

lemma sink_body_WriteHeader_B: "sink_body (WriteHeader_B code g) = sink_body g"
  by (simp add: WriteHeader_B_def Let_def sink_body_simps)

lemma gz_WriteHeader_B: "gz (WriteHeader_B code g) = gz g"
  by (simp add: WriteHeader_B_def Let_def gz_simps)

lemma sink_body_Write_B:
  "sink_body (Write_B L b g) =
     sink_body g @ (if status (Write_B L b g) = COMPRESSION_ENABLED
                    then concat (snd (gzWrite L (gz g) b)) else b)"
  by (simp add: Write_B_def Let_def sink_body_simps sink_body_WriteHeader_B gz_simps
        gz_WriteHeader_B status_simps)

lemma gz_Write_B:
  "gz (Write_B L b g) =
     (if status (Write_B L b g) = COMPRESSION_ENABLED then fst (gzWrite L (gz g) b) else gz g)"
  by (simp add: Write_B_def Let_def gz_simps gz_WriteHeader_B status_simps)

lemma sink_body_compressContent_A: "sink_body (snd (compressContent_A g)) = sink_body g"
  by (simp add: compressContent_A_def Let_def sink_body_simps)

lemma gz_compressContent_A: "gz (snd (compressContent_A g)) = gz g"
  by (simp add: compressContent_A_def Let_def gz_simps)

lemma sink_body_Write_A:
  "sink_body (Write_A L b g) =
     sink_body g @ (if status (Write_A L b g) = COMPRESSION_ENABLED
                    then concat (snd (gzWrite L (gz g) b)) else b)"
  by (simp add: Write_A_alt sink_body_simps sink_body_compressContent_A gz_simps
        gz_compressContent_A status_simps)

lemma gz_Write_A:
  "gz (Write_A L b g) =
     (if status (Write_A L b g) = COMPRESSION_ENABLED then fst (gzWrite L (gz g) b) else gz g)"
  by (simp add: Write_A_alt gz_simps gz_compressContent_A status_simps)

lemma sink_body_rw_update:
  "sink_body (g\<lparr>nrw := rw_WriteHeader (nrw g) code\<rparr>) = sink_body g"
  by (simp add: sink_body_def sink_body_rw_WriteHeader)

lemma gzStream_Cons:
  "gzStream L z (b # bs) = concat (snd (gzWrite L z b)) @ gzStream L (fst (gzWrite L z b)) bs"
  by (simp split: prod.splits)

lemma sink_body_deferred_B:
  "sink_body (deferred_B L g) =
     sink_body g @ (if status g = COMPRESSION_ENABLED then concat (gzClose L (gz g)) else [])"
  by (simp add: deferred_B_def sink_body_simps)

lemma sink_body_deferred_A:
  "sink_body (deferred_A L g) =
     sink_body g @ (if status g = COMPRESSION_ENABLED then concat (gzClose L (gz g)) else [])"
  by (simp add: deferred_A_def sink_body_simps)

lemma sink_body_run_B:
  "sink_body (deferred_B L (next_B L g cs)) =
     sink_body g @ (if status (next_B L g cs) = COMPRESSION_ENABLED
                    then gzStream L (gz g) (payloads cs) else written cs)"
proof (induction cs arbitrary: g)
  case Nil
  show ?case by (simp add: next_B_Nil sink_body_deferred_B written_def)
next
  case (Cons c cs)
  show ?case
  proof (cases c)
    case (Mutate f)
    then show ?thesis
      by (simp add: next_B_Cons Cons.IH sink_body_simps gz_simps written_def)
  next
    case (CallWriteHeader code)
    then show ?thesis
      by (simp add: next_B_Cons Cons.IH sink_body_WriteHeader_B gz_WriteHeader_B written_def)
  next
    case (CallWrite b)
    have d: "status (Write_B L b g) \<noteq> COMPRESSION_CHECK"
      by (simp add: status_Write_B)
    then have "status (next_B L (Write_B L b g) cs) = status (Write_B L b g)"
      by (rule status_next_B_decided)
    with CallWrite show ?thesis
      by (simp add: next_B_Cons Cons.IH sink_body_Write_B gz_Write_B written_def
            del: gzStream.simps add: gzStream_Cons)
  qed
qed

lemma sink_body_run_A:
  "sink_body (deferred_A L (next_A L g cs)) =
     sink_body g @ (if status (next_A L g cs) = COMPRESSION_ENABLED
                    then gzStream L (gz g) (payloads cs) else written cs)"
proof (induction cs arbitrary: g)
  case Nil
  show ?case by (simp add: next_A_Nil sink_body_deferred_A written_def)
next
  case (Cons c cs)
  show ?case
  proof (cases c)
    case (Mutate f)
    then show ?thesis
      by (simp add: next_A_Cons Cons.IH sink_body_simps gz_simps written_def)
  next
    case (CallWriteHeader code)
    then show ?thesis
      by (simp add: next_A_Cons Cons.IH sink_body_rw_update written_def)
  next
    case (CallWrite b)
    have d: "status (Write_A L b g) \<noteq> COMPRESSION_UNDEFINED"
      by (simp add: status_Write_A)
    then have "status (next_A L (Write_A L b g) cs) = status (Write_A L b g)"
      by (rule status_next_A_decided)
    with CallWrite show ?thesis
      by (simp add: next_A_Cons Cons.IH sink_body_Write_A gz_Write_A written_def
            del: gzStream.simps add: gzStream_Cons)
  qed
qed

lemma body_next_raw: "body (next_raw w nxt) = body w @ written nxt"
proof (induction nxt arbitrary: w)
  case Nil
  show ?case by (simp add: next_raw_def written_def)
next
  case (Cons c cs)
  then show ?case
    by (cases c) (simp_all add: next_raw_def written_def body_sink_WriteHeader body_sink_Write)
qed

lemma headers_next_raw: "headers (next_raw w nxt) = own_headers (headers w) nxt"
proof (induction nxt arbitrary: w)
  case Nil
  show ?case by (simp add: next_raw_def)
next
  case (Cons c cs)
  then show ?case
    by (cases c) (simp_all add: next_raw_def headers_sink_WriteHeader headers_sink_Write)
qed

lemma sink_body_new_grw: "sink_body (new_grw r z w fn) = body w"
  by (simp add: sink_body_def new_grw_def NewResponseWriter_def)

lemma gz_new_grw: "gz (new_grw r z w fn) = z"
  by (simp add: new_grw_def)

lemma sent_append: "body w' = body w @ bs \<Longrightarrow> sent w w' = bs"
  by (simp add: sent_def)

lemma final_sink_Wrapped_body: "body (final_sink (Wrapped g)) = sink_body g"
  by (simp add: sink_body_def)

lemma sent_Wrapped_B:
  "sent w (final_sink (Wrapped (deferred_B L (next_B L (new_grw r z w fn) nxt)))) =
     (if status (next_B L (new_grw r z w fn) nxt) = COMPRESSION_ENABLED
      then gzStream L z (payloads nxt) else written nxt)"
  by (rule sent_append)
     (simp only: final_sink_Wrapped_body sink_body_run_B sink_body_new_grw gz_new_grw)

lemma sent_Wrapped_A:
  "sent w (final_sink (Wrapped (deferred_A L (next_A L (new_grw r z w fn) nxt)))) =
     (if status (next_A L (new_grw r z w fn) nxt) = COMPRESSION_ENABLED
      then gzStream L z (payloads nxt) else written nxt)"
  by (rule sent_append)
     (simp only: final_sink_Wrapped_body sink_body_run_A sink_body_new_grw gz_new_grw)

lemma sent_Passthrough: "sent w (final_sink (Passthrough (next_raw w nxt))) = written nxt"
  by (rule sent_append) (simp add: body_next_raw)

lemma wrapped_level_A:
  "final_status (ServeHTTP_A L h w r nxt) = Some s \<Longrightarrow>
     \<exists>z. NewWriterLevel L (compressionLevel h) = Some z"
  by (auto simp add: ServeHTTP_A_def split: if_splits option.splits)

lemma wrapped_level_B:
  "final_status (ServeHTTP_B L h w r nxt) = Some s \<Longrightarrow>
     \<exists>z. NewWriterLevel L (compressionLevel h) = Some z"
  by (auto simp add: ServeHTTP_B_def split: if_splits option.splits)

subsection \<open>The small library keeps the codec's contract\<close>

lemma stored_gzWrite: "gzWrite storedLib z b = (True, (if z then [] else [storedMagic]) @ [b])"
  by (simp add: storedLib_def)

lemma stored_gzClose: "gzClose storedLib z = (if z then [] else [storedMagic]) @ [storedTrailer]"
  by (simp add: storedLib_def)

lemma stored_stream_written: "gzStream storedLib True bs = concat bs @ storedTrailer"
  by (induction bs) (simp_all add: stored_gzWrite stored_gzClose)

lemma stored_stream: "gzStream storedLib False bs = storedMagic @ concat bs @ storedTrailer"
  by (cases bs) (simp_all add: stored_gzWrite stored_gzClose stored_stream_written)




lemma final_status_Wrapped_B:
  "final_status (Wrapped (deferred_B L g)) = Some (status g)"
  by (simp add: status_deferred_B)

lemma final_status_Wrapped_A:
  "final_status (Wrapped (deferred_A L g)) = Some (status g)"
  by (simp add: status_deferred_A)







subsection \<open>Closing the codec\<close>

lemma close_free_call_B:
  "EvGzClose \<in> set (trace (call_B L g c)) \<longleftrightarrow> EvGzClose \<in> set (trace g)"
  by (cases c)
     (simp_all add: trace_map_Header trace_WriteHeader_B trace_Write_B allow_events_def
        sniff_events_def split: option.splits)

lemma close_free_call_A:
  "EvGzClose \<in> set (trace (call_A L g c)) \<longleftrightarrow> EvGzClose \<in> set (trace g)"
  by (cases c)
     (simp_all add: trace_map_Header trace_Write_A allow_events_def
        sniff_events_def split: option.splits)

lemma close_free_next_B:
  "EvGzClose \<in> set (trace (next_B L g cs)) \<longleftrightarrow> EvGzClose \<in> set (trace g)"
  by (induction cs arbitrary: g) (simp_all add: next_B_Nil next_B_Cons close_free_call_B)

lemma close_free_next_A:
  "EvGzClose \<in> set (trace (next_A L g cs)) \<longleftrightarrow> EvGzClose \<in> set (trace g)"
  by (induction cs arbitrary: g) (simp_all add: next_A_Nil next_A_Cons close_free_call_A)

lemma no_close_before_return_B: "EvGzClose \<notin> set (trace (next_B L (new_grw r z w fn) nxt))"
  by (simp add: close_free_next_B trace_new_grw)

lemma no_close_before_return_A: "EvGzClose \<notin> set (trace (next_A L (new_grw r z w fn) nxt))"
  by (simp add: close_free_next_A trace_new_grw)

lemma closes_Wrapped_B:
  "count_list (final_trace (Wrapped (deferred_B L (next_B L (new_grw r z w fn) nxt)))) EvGzClose =
     (if status (next_B L (new_grw r z w fn) nxt) = COMPRESSION_ENABLED then 1 else 0)"
  using no_close_before_return_B [of L r z w fn nxt]
  by (simp add: trace_deferred_B count_list_0_iff)

lemma closes_Wrapped_A:
  "count_list (final_trace (Wrapped (deferred_A L (next_A L (new_grw r z w fn) nxt)))) EvGzClose =
     (if status (next_A L (new_grw r z w fn) nxt) = COMPRESSION_ENABLED then 1 else 0)"
  using no_close_before_return_A [of L r z w fn nxt]
  by (simp add: trace_deferred_A count_list_0_iff)

lemma closes_ServeHTTP_B:
  "count_list (final_trace (ServeHTTP_B L h w r nxt)) EvGzClose =
     (if final_status (ServeHTTP_B L h w r nxt) = Some COMPRESSION_ENABLED then 1 else 0)"
  by (simp add: ServeHTTP_B_def closes_Wrapped_B status_deferred_B
        del: final_trace.simps split: option.splits) simp

lemma closes_ServeHTTP_A:
  "count_list (final_trace (ServeHTTP_A L h w r nxt)) EvGzClose =
     (if final_status (ServeHTTP_A L h w r nxt) = Some COMPRESSION_ENABLED then 1 else 0)"
  by (simp add: ServeHTTP_A_def closes_Wrapped_A status_deferred_A
        del: final_trace.simps split: option.splits) simp

subsection \<open>Consulting the callback\<close>

lemma allowCompression_more:
  "allowCompression (forward_WriteHeader code g) = allowCompression g"
  "allowCompression (forward_Write b g) = allowCompression g"
  "allowCompression (gz_Write L b g) = allowCompression g"
  "allowCompression (gz_Close L g) = allowCompression g"
  by (simp_all add: forward_WriteHeader_def forward_Write_def gz_Write_def gz_Close_def
        log_def map_sink_def split: prod.splits)

lemma allowCompression_WriteHeader_B: "allowCompression (WriteHeader_B code g) = allowCompression g"
  by (simp add: WriteHeader_B_def Let_def allowCompression_simps allowCompression_more)

lemma allowCompression_Write_B: "allowCompression (Write_B L b g) = allowCompression g"
  by (simp add: Write_B_def Let_def allowCompression_simps allowCompression_more
        allowCompression_WriteHeader_B)

lemma allowCompression_compressContent_A:
  "allowCompression (snd (compressContent_A g)) = allowCompression g"
  by (simp add: compressContent_A_def Let_def allowCompression_simps)

lemma allowCompression_Write_A: "allowCompression (Write_A L b g) = allowCompression g"
  by (simp add: Write_A_alt allowCompression_simps allowCompression_more
        allowCompression_compressContent_A)

lemma allowCompression_call_B: "allowCompression (call_B L g c) = allowCompression g"
  by (cases c)
     (simp_all add: allowCompression_simps allowCompression_WriteHeader_B allowCompression_Write_B)

lemma allowCompression_call_A: "allowCompression (call_A L g c) = allowCompression g"
  by (cases c) (simp_all add: allowCompression_simps allowCompression_Write_A)

lemma allowCompression_next_B: "allowCompression (next_B L g cs) = allowCompression g"
  by (induction cs arbitrary: g) (simp_all add: next_B_Nil next_B_Cons allowCompression_call_B)

lemma allowCompression_next_A: "allowCompression (next_A L g cs) = allowCompression g"
  by (induction cs arbitrary: g) (simp_all add: next_A_Nil next_A_Cons allowCompression_call_A)

















subsection \<open>Reading a header after the writer's changes\<close>

lemma Get_Set_same: "Header_Get (Header_Set h k v) k = v"
  by (simp add: header_defs)

lemma Get_CT_Set_CE:
  "Header_Get (Header_Set h headerContentEncoding v) headerContentType = Header_Get h headerContentType"
  by (simp add: header_defs canon_simps)

lemma Get_CT_Set_Vary:
  "Header_Get (Header_Set h headerVary v) headerContentType = Header_Get h headerContentType"
  by (simp add: header_defs canon_simps)

lemma Get_CT_Del_CL:
  "Header_Get (Header_Del h headerContentLength) headerContentType = Header_Get h headerContentType"
  by (simp add: header_defs canon_simps)

lemmas Get_CT_simps = Get_Set_same Get_CT_Set_CE Get_CT_Set_Vary Get_CT_Del_CL

lemma Get_CT_sniffContentType:
  "Header_Get (Header_of (sniffContentType L b g)) headerContentType =
     (if Header_Get (Header_of g) headerContentType = [] then DetectContentType L b
      else Header_Get (Header_of g) headerContentType)"
  by (simp add: Header_of_sniffContentType Get_Set_same)

lemma Get_CT_Write_A:
  "Header_Get (Header_of (Write_A L b g)) headerContentType =
     (if Header_Get (Header_of g) headerContentType = [] then DetectContentType L b
      else Header_Get (Header_of g) headerContentType)"
  by (simp add: Header_of_Write_A Header_of_compressContent_A Get_CT_simps
        Get_CT_sniffContentType)

lemma Get_CT_Write_B:
  "status g = COMPRESSION_CHECK \<Longrightarrow>
   Header_Get (Header_of (Write_B L b g)) headerContentType =
     (if Header_Get (Header_of g) headerContentType = [] then DetectContentType L b
      else Header_Get (Header_of g) headerContentType)"
  by (simp add: Header_of_Write_B Header_of_WriteHeader_B Get_CT_simps
        Get_CT_sniffContentType)






subsection \<open>The first write\<close>

lemma sniffContentType_empty:
  "Header_Get (Header_of g) headerContentType = [] \<Longrightarrow>
     sniffContentType L b g = grw_Set headerContentType (DetectContentType L b) g"
  by (simp add: sniffContentType_def)

lemma sniff_events_empty:
  "Header_Get (Header_of g) headerContentType = [] \<Longrightarrow>
     sniff_events L b g = [EvHeaderSet headerContentType (DetectContentType L b)]"
  by (simp add: sniff_events_def)

lemma first_Write_B:
  assumes "status g = COMPRESSION_CHECK" and "Header_Get (Header_of g) headerContentType = []"
  shows "status (Write_B L b g) =
           (if allowed (grw_Set headerContentType (DetectContentType L b) g)
            then COMPRESSION_ENABLED else COMPRESSION_DISABLED)"
    and "trace (Write_B L b g) =
           trace g @ [EvHeaderSet headerContentType (DetectContentType L b)] @ allow_events g
           @ (if allowed (grw_Set headerContentType (DetectContentType L b) g)
              then [EvHeaderDel headerContentLength,
                    EvHeaderSet headerContentEncoding encodingGzip,
                    EvHeaderSet headerVary headerAcceptEncoding]
              else [])
           @ [EvWriteHeader StatusOK,
              if allowed (grw_Set headerContentType (DetectContentType L b) g)
              then EvGzWrite b else EvWrite b]"
    and "Header_Get (Header_of (Write_B L b g)) headerContentType = DetectContentType L b"
  using assms
  by (simp_all add: status_Write_B trace_Write_B sniffContentType_empty sniff_events_empty
        Get_CT_Write_B)

lemma first_Write_A:
  assumes "status g = COMPRESSION_UNDEFINED" and "Header_Get (Header_of g) headerContentType = []"
  shows "status (Write_A L b g) =
           (if allowed (grw_Set headerContentType (DetectContentType L b) g)
            then COMPRESSION_ENABLED else COMPRESSION_DISABLED)"
    and "trace (Write_A L b g) =
           trace g @ [EvHeaderSet headerContentType (DetectContentType L b)] @ allow_events g
           @ (if allowed (grw_Set headerContentType (DetectContentType L b) g)
              then [EvHeaderSet headerContentEncoding encodingGzip,
                    EvHeaderSet headerVary headerAcceptEncoding]
              else [])
           @ [if allowed (grw_Set headerContentType (DetectContentType L b) g)
              then EvGzWrite b else EvWrite b]"
    and "Header_Get (Header_of (Write_A L b g)) headerContentType = DetectContentType L b"
  using assms
  by (simp_all add: status_Write_A trace_Write_A sniffContentType_empty sniff_events_empty
        Get_CT_Write_A)

subsection \<open>A response that is already encoded\<close>

lemma allowed_nil: "allowCompression g = None \<Longrightarrow> allowed g"
  by (simp add: allowed_def)

lemma enabled_call_B:
  "allowCompression g = None \<Longrightarrow> trigger_B c \<Longrightarrow> status g \<noteq> COMPRESSION_DISABLED \<Longrightarrow>
     status (call_B L g c) = COMPRESSION_ENABLED"
  by (cases c; cases "status g")
     (simp_all add: status_WriteHeader_B status_Write_B allowed_nil allowCompression_simps)

lemma enabled_call_A:
  "allowCompression g = None \<Longrightarrow> trigger_A c \<Longrightarrow> status g \<noteq> COMPRESSION_DISABLED \<Longrightarrow>
     status (call_A L g c) = COMPRESSION_ENABLED"
  by (cases c; cases "status g")
     (simp_all add: status_Write_A allowed_nil allowCompression_simps)

lemma not_disabled_call_B:
  "allowCompression g = None \<Longrightarrow> status g \<noteq> COMPRESSION_DISABLED \<Longrightarrow>
     status (call_B L g c) \<noteq> COMPRESSION_DISABLED"
  by (cases c; cases "status g")
     (simp_all add: status_simps status_WriteHeader_B status_Write_B allowed_nil
        allowCompression_simps)

lemma not_disabled_call_A:
  "allowCompression g = None \<Longrightarrow> status g \<noteq> COMPRESSION_DISABLED \<Longrightarrow>
     status (call_A L g c) \<noteq> COMPRESSION_DISABLED"
  by (cases c; cases "status g")
     (simp_all add: status_simps status_Write_A allowed_nil allowCompression_simps)

lemma enabled_next_B:
  "allowCompression g = None \<Longrightarrow> status g \<noteq> COMPRESSION_DISABLED \<Longrightarrow>
   \<exists>c \<in> set cs. trigger_B c \<Longrightarrow> status (next_B L g cs) = COMPRESSION_ENABLED"
proof (induction cs arbitrary: g)
  case Nil
  then show ?case by simp
next
  case (Cons c cs)
  show ?case
  proof (cases "trigger_B c")
    case True
    with Cons.prems have "status (call_B L g c) = COMPRESSION_ENABLED"
      by (simp add: enabled_call_B)
    then show ?thesis
      by (simp add: next_B_Cons status_next_B_decided)
  next
    case False
    with Cons.prems have "\<exists>c \<in> set cs. trigger_B c" by auto
    moreover from Cons.prems have "status (call_B L g c) \<noteq> COMPRESSION_DISABLED"
      by (simp add: not_disabled_call_B)
    moreover from Cons.prems have "allowCompression (call_B L g c) = None"
      by (simp add: allowCompression_call_B)
    ultimately show ?thesis
      by (simp add: next_B_Cons Cons.IH)
  qed
qed

lemma enabled_next_A:
  "allowCompression g = None \<Longrightarrow> status g \<noteq> COMPRESSION_DISABLED \<Longrightarrow>
   \<exists>c \<in> set cs. trigger_A c \<Longrightarrow> status (next_A L g cs) = COMPRESSION_ENABLED"
proof (induction cs arbitrary: g)
  case Nil
  then show ?case by simp
next
  case (Cons c cs)
  show ?case
  proof (cases "trigger_A c")
    case True
    with Cons.prems have "status (call_A L g c) = COMPRESSION_ENABLED"
      by (simp add: enabled_call_A)
    then show ?thesis
      by (simp add: next_A_Cons status_next_A_decided)
  next
    case False
    with Cons.prems have "\<exists>c \<in> set cs. trigger_A c" by auto
    moreover from Cons.prems have "status (call_A L g c) \<noteq> COMPRESSION_DISABLED"
      by (simp add: not_disabled_call_A)
    moreover from Cons.prems have "allowCompression (call_A L g c) = None"
      by (simp add: allowCompression_call_A)
    ultimately show ?thesis
      by (simp add: next_A_Cons Cons.IH)
  qed
qed

lemma allowCompression_new_grw: "allowCompression (new_grw r z w fn) = fn"
  by (simp add: new_grw_def)

lemma eligible_A:
  assumes "Contains (Header_Get (Header r) headerAcceptEncoding) encodingGzip"
    and "length (Header_Get (Header r) headerSecWebSocketKey) = 0"
    and "NewWriterLevel L (compressionLevel h) = Some z"
  shows "ServeHTTP_A L h w r nxt =
           (if Header_Get (headers w) headerContentEncoding = encodingGzip
            then Passthrough (next_raw w nxt)
            else Wrapped (deferred_A L (next_A L (new_grw r z w (h_allowCompression h)) nxt)))"
  using assms by (simp add: ServeHTTP_A_def)

lemma eligible_B:
  assumes "Contains (Header_Get (Header r) headerAcceptEncoding) encodingGzip"
    and "length (Header_Get (Header r) headerSecWebSocketKey) = 0"
    and "NewWriterLevel L (compressionLevel h) = Some z"
  shows "ServeHTTP_B L h w r nxt =
           (if Header_Get (headers w) headerContentEncoding = encodingGzip
            then Passthrough (next_raw w nxt)
            else Wrapped (deferred_B L (next_B L (new_grw r z w (h_allowCompression h)) nxt)))"
  using assms by (simp add: ServeHTTP_B_def)

subsection \<open>The decision state\<close>

text \<open>
  C1 (as amended). A fresh writer starts in \<open>COMPRESSION_UNDEFINED\<close> (\<open>COMPRESSION_CHECK\<close>).
  Calls that are not triggers leave the status as it is. The first trigger call sets it to
  \<open>COMPRESSION_ENABLED\<close> or \<open>COMPRESSION_DISABLED\<close>, and whatever the handler calls afterwards,
  the status keeps that value; a status that is already decided never changes. The
  triggers are \<^verbatim>\<open>Write\<close> alone in version A (\<^verbatim>\<open>src/gzip/gzip.go\<close>), and \<^verbatim>\<open>WriteHeader\<close> and
  \<^verbatim>\<open>Write\<close> in version B (\<^verbatim>\<open>src/unnamed/part_001\<close>).
\<close>

theorem decision_state_machine:
  "status (new_grw r z w fn) = COMPRESSION_UNDEFINED
   \<and> (status gA \<noteq> COMPRESSION_UNDEFINED \<longrightarrow> status (next_A L gA cs) = status gA)
   \<and> (status gB \<noteq> COMPRESSION_CHECK \<longrightarrow> status (next_B L gB cs) = status gB)
   \<and> ((\<forall>c \<in> set pre. \<not> trigger_A c) \<longrightarrow> status (next_A L gA pre) = status gA)
   \<and> ((\<forall>c \<in> set pre. \<not> trigger_B c) \<longrightarrow> status (next_B L gB pre) = status gB)
   \<and> ((\<forall>c \<in> set pre. \<not> trigger_A c) \<and> trigger_A c \<longrightarrow>
        status (call_A L (next_A L gA pre) c) \<in> {COMPRESSION_ENABLED, COMPRESSION_DISABLED}
        \<and> status (next_A L gA (pre @ c # post)) = status (call_A L (next_A L gA pre) c))
   \<and> ((\<forall>c \<in> set pre. \<not> trigger_B c) \<and> trigger_B c \<longrightarrow>
        status (call_B L (next_B L gB pre) c) \<in> {COMPRESSION_ENABLED, COMPRESSION_DISABLED}
        \<and> status (next_B L gB (pre @ c # post)) = status (call_B L (next_B L gB pre) c))"
proof -
  have start: "status (new_grw r z w fn) = COMPRESSION_UNDEFINED"
    by (simp add: new_grw_def)
  have trigA: "status (call_A L (next_A L gA pre) c) \<in> {COMPRESSION_ENABLED, COMPRESSION_DISABLED}
        \<and> status (next_A L gA (pre @ c # post)) = status (call_A L (next_A L gA pre) c)"
    if "trigger_A c"
  proof -
    from that have d: "status (call_A L (next_A L gA pre) c) \<noteq> COMPRESSION_UNDEFINED"
      by (rule status_call_A_trigger)
    then have "status (call_A L (next_A L gA pre) c) \<in> {COMPRESSION_ENABLED, COMPRESSION_DISABLED}"
      by (cases "status (call_A L (next_A L gA pre) c)") simp_all
    moreover have "status (next_A L gA (pre @ c # post)) = status (call_A L (next_A L gA pre) c)"
      using d by (simp add: next_A_append next_A_Cons status_next_A_decided)
    ultimately show ?thesis by simp
  qed
  have trigB: "status (call_B L (next_B L gB pre) c) \<in> {COMPRESSION_ENABLED, COMPRESSION_DISABLED}
        \<and> status (next_B L gB (pre @ c # post)) = status (call_B L (next_B L gB pre) c)"
    if "trigger_B c"
  proof -
    from that have d: "status (call_B L (next_B L gB pre) c) \<noteq> COMPRESSION_CHECK"
      by (rule status_call_B_trigger)
    then have "status (call_B L (next_B L gB pre) c) \<in> {COMPRESSION_ENABLED, COMPRESSION_DISABLED}"
      by (cases "status (call_B L (next_B L gB pre) c)") simp_all
    moreover have "status (next_B L gB (pre @ c # post)) = status (call_B L (next_B L gB pre) c)"
      using d by (simp add: next_B_append next_B_Cons status_next_B_decided)
    ultimately show ?thesis by simp
  qed
  show ?thesis
    using start trigA trigB
    by (simp add: status_next_A_decided status_next_B_decided status_next_A_idle status_next_B_idle)
qed

text \<open>
  The theorem at the test request: the handler sets a Content-Length, writes the test
  string, and then calls \<^verbatim>\<open>WriteHeader(404)\<close> and writes again.
\<close>

theorem decision_state_machine_witness:
  "status (next_A storedLib (new_grw gzipRequest False NewRecorder None)
            ([Mutate (\<lambda>h. Header_Set h headerContentLength ''21'')]
             @ CallWrite gzipTestString # [CallWriteHeader 404, CallWrite gzipTestString]))
     = COMPRESSION_ENABLED
   \<and> status (next_B storedLib (new_grw gzipRequest False NewRecorder None)
            ([Mutate (\<lambda>h. Header_Set h headerContentLength ''21'')]
             @ CallWrite gzipTestString # [CallWriteHeader 404, CallWrite gzipTestString]))
     = COMPRESSION_ENABLED"
  using decision_state_machine
    [where gA = "new_grw gzipRequest False NewRecorder None"
       and gB = "new_grw gzipRequest False NewRecorder None"
       and L = storedLib
       and pre = "[Mutate (\<lambda>h. Header_Set h headerContentLength ''21'')]"
       and c = "CallWrite gzipTestString"
       and post = "[CallWriteHeader 404, CallWrite gzipTestString]"]
  by (simp add: eval_defs)

text \<open>
  C1 as stated does not hold for version A: there an explicit \<^verbatim>\<open>WriteHeader\<close> is the
  embedded writer's method and decides nothing. A handler that only calls
  \<^verbatim>\<open>WriteHeader(200)\<close> leaves the status undefined in version A and decided in version B.
\<close>

theorem header_commit_is_no_trigger_in_A:
  "final_status (ServeHTTP_A storedLib Default NewRecorder gzipRequest [CallWriteHeader 200])
     = Some COMPRESSION_UNDEFINED
   \<and> final_status (ServeHTTP_B storedLib Default NewRecorder gzipRequest [CallWriteHeader 200])
     = Some COMPRESSION_ENABLED"
  by (simp add: eval_defs)

subsection \<open>The header changes of the transition\<close>




subsection \<open>What reaches the sink\<close>



subsection \<open>Closing the codec after the handler returned\<close>

text \<open>
  C4. Over a whole \<^verbatim>\<open>ServeHTTP\<close> the writer calls \<^verbatim>\<open>Close\<close> on the codec once when the final
  status is \<open>COMPRESSION_ENABLED\<close>, and not at all when it is disabled, still undefined, or
  when the sink was handed to the handler directly. The call is never made while the
  handler runs. Both hold in both versions.
\<close>

theorem close_iff_enabled:
  "count_list (final_trace (ServeHTTP_A L h w r nxt)) EvGzClose =
     (if final_status (ServeHTTP_A L h w r nxt) = Some COMPRESSION_ENABLED then 1 else 0)
   \<and> count_list (final_trace (ServeHTTP_B L h w r nxt)) EvGzClose =
     (if final_status (ServeHTTP_B L h w r nxt) = Some COMPRESSION_ENABLED then 1 else 0)
   \<and> EvGzClose \<notin> set (trace (next_A L (new_grw r z w fn) nxt))
   \<and> EvGzClose \<notin> set (trace (next_B L (new_grw r z w fn) nxt))"
  by (simp only: closes_ServeHTTP_A closes_ServeHTTP_B no_close_before_return_A
        no_close_before_return_B simp_thms)

text \<open>
  The theorem on three runs: the test handler with compression enabled, the test handler
  behind a refusing callback, and a handler that calls nothing.
\<close>

theorem close_iff_enabled_witness:
  "count_list (final_trace (ServeHTTP_A storedLib Default NewRecorder gzipRequest testHTTPContent))
      EvGzClose = 1
   \<and> count_list (final_trace (ServeHTTP_B storedLib Default NewRecorder gzipRequest testHTTPContent))
      EvGzClose = 1
   \<and> count_list (final_trace (ServeHTTP_A storedLib refusingHandler NewRecorder gzipRequest testHTTPContent))
      EvGzClose = 0
   \<and> count_list (final_trace (ServeHTTP_B storedLib refusingHandler NewRecorder gzipRequest testHTTPContent))
      EvGzClose = 0
   \<and> count_list (final_trace (ServeHTTP_A storedLib Default NewRecorder gzipRequest [])) EvGzClose = 0
   \<and> count_list (final_trace (ServeHTTP_B storedLib Default NewRecorder gzipRequest [])) EvGzClose = 0"
proof -
  have "final_status (ServeHTTP_A storedLib Default NewRecorder gzipRequest testHTTPContent)
          = Some COMPRESSION_ENABLED"
    and "final_status (ServeHTTP_B storedLib Default NewRecorder gzipRequest testHTTPContent)
          = Some COMPRESSION_ENABLED"
    and "final_status (ServeHTTP_A storedLib refusingHandler NewRecorder gzipRequest testHTTPContent)
          = Some COMPRESSION_DISABLED"
    and "final_status (ServeHTTP_B storedLib refusingHandler NewRecorder gzipRequest testHTTPContent)
          = Some COMPRESSION_DISABLED"
    and "final_status (ServeHTTP_A storedLib Default NewRecorder gzipRequest [])
          = Some COMPRESSION_UNDEFINED"
    and "final_status (ServeHTTP_B storedLib Default NewRecorder gzipRequest [])
          = Some COMPRESSION_UNDEFINED"
    by (simp_all add: eval_defs refusingHandler_def)
  with close_iff_enabled
         [where L = storedLib and h = Default and w = NewRecorder and r = gzipRequest
            and nxt = testHTTPContent]
       close_iff_enabled
         [where L = storedLib and h = refusingHandler and w = NewRecorder and r = gzipRequest
            and nxt = testHTTPContent]
       close_iff_enabled
         [where L = storedLib and h = Default and w = NewRecorder and r = gzipRequest
            and nxt = "[]"]
  show ?thesis by simp
qed

subsection \<open>Requests and responses that are not eligible\<close>

text \<open>
  C5. When the request's Accept-Encoding does not contain \<open>gzip\<close>, or the request has a
  Sec-WebSocket-Key, or the response's Content-Encoding is already \<open>gzip\<close>, \<^verbatim>\<open>ServeHTTP\<close>
  calls the next handler on the sink itself: no writer is made, the sink receives the
  calls of the handler and nothing else, so its body grows by exactly the bytes written
  and its header map is what the handler's own changes make of it. This holds in both
  versions.
\<close>

theorem ineligible_passthrough:
  "\<not> Contains (Header_Get (Header r) headerAcceptEncoding) encodingGzip
   \<or> length (Header_Get (Header r) headerSecWebSocketKey) > 0
   \<or> Header_Get (headers w) headerContentEncoding = encodingGzip
   \<longrightarrow> ServeHTTP_A L h w r nxt = Passthrough (next_raw w nxt)
       \<and> ServeHTTP_B L h w r nxt = Passthrough (next_raw w nxt)
       \<and> body (next_raw w nxt) = body w @ written nxt
       \<and> headers (next_raw w nxt) = own_headers (headers w) nxt"
  by (simp add: ServeHTTP_A_def ServeHTTP_B_def body_next_raw headers_next_raw)

text \<open>The theorem on one run for each of the three conditions.\<close>

theorem ineligible_passthrough_witness:
  "ServeHTTP_A storedLib Default NewRecorder NewRequest testHTTPContent
     = Passthrough (next_raw NewRecorder testHTTPContent)
   \<and> ServeHTTP_B storedLib Default NewRecorder webSocketRequest testHTTPContent
     = Passthrough (next_raw NewRecorder testHTTPContent)
   \<and> ServeHTTP_B storedLib Default recorderWithGzip gzipRequest testHTTPContent
     = Passthrough (next_raw recorderWithGzip testHTTPContent)
   \<and> body (next_raw NewRecorder testHTTPContent) = ''Foobar Wibble Content''"
proof -
  have "\<not> Contains (Header_Get (Header NewRequest) headerAcceptEncoding) encodingGzip"
    and "length (Header_Get (Header webSocketRequest) headerSecWebSocketKey) > 0"
    and "Header_Get (headers recorderWithGzip) headerContentEncoding = encodingGzip"
    by (simp_all add: eval_defs webSocketRequest_def recorderWithGzip_def)
  with ineligible_passthrough
         [where L = storedLib and h = Default and w = NewRecorder and r = NewRequest
            and nxt = testHTTPContent]
       ineligible_passthrough
         [where L = storedLib and h = Default and w = NewRecorder and r = webSocketRequest
            and nxt = testHTTPContent]
       ineligible_passthrough
         [where L = storedLib and h = Default and w = recorderWithGzip and r = gzipRequest
            and nxt = testHTTPContent]
  show ?thesis
    by (simp add: written_def testHTTPContent_def gzipTestString_def NewRecorder_def)
qed

subsection \<open>An invalid compression level\<close>

text \<open>
  C6. \<^verbatim>\<open>New\<close> accepts any level. When \<^verbatim>\<open>gzip.NewWriterLevel\<close> rejects the handler's level,
  \<^verbatim>\<open>ServeHTTP\<close> calls the next handler on the sink itself, for every request: the sink's
  body grows by exactly the bytes the handler wrote. \<^verbatim>\<open>ServeHTTP\<close> returns nothing, so there
  is no error for it to hand on. This holds in both versions.
\<close>

theorem invalid_level_passthrough:
  "NewWriterLevel L level = None
   \<longrightarrow> compressionLevel (New level fn) = level
       \<and> ServeHTTP_A L (New level fn) w r nxt = Passthrough (next_raw w nxt)
       \<and> ServeHTTP_B L (New level fn) w r nxt = Passthrough (next_raw w nxt)
       \<and> sent w (final_sink (ServeHTTP_A L (New level fn) w r nxt)) = written nxt
       \<and> sent w (final_sink (ServeHTTP_B L (New level fn) w r nxt)) = written nxt"
proof
  assume inv: "NewWriterLevel L level = None"
  have lvl: "compressionLevel (New level fn) = level"
    by (simp add: New_def)
  with inv have a: "ServeHTTP_A L (New level fn) w r nxt = Passthrough (next_raw w nxt)"
    by (simp add: ServeHTTP_A_def)
  from inv lvl have b: "ServeHTTP_B L (New level fn) w r nxt = Passthrough (next_raw w nxt)"
    by (simp add: ServeHTTP_B_def)
  show "compressionLevel (New level fn) = level
       \<and> ServeHTTP_A L (New level fn) w r nxt = Passthrough (next_raw w nxt)
       \<and> ServeHTTP_B L (New level fn) w r nxt = Passthrough (next_raw w nxt)
       \<and> sent w (final_sink (ServeHTTP_A L (New level fn) w r nxt)) = written nxt
       \<and> sent w (final_sink (ServeHTTP_B L (New level fn) w r nxt)) = written nxt"
    by (simp only: a b lvl sent_Passthrough simp_thms)
qed

text \<open>The theorem on the test with level 11 and a request that accepts gzip.\<close>

theorem invalid_level_passthrough_witness:
  "body (final_sink (ServeHTTP_A storedLib (New gzipInvalidCompressionLevel None)
                       NewRecorder gzipRequest testHTTPContent)) = ''Foobar Wibble Content''
   \<and> body (final_sink (ServeHTTP_B storedLib (New gzipInvalidCompressionLevel None)
                       NewRecorder gzipRequest testHTTPContent)) = ''Foobar Wibble Content''"
proof -
  have "NewWriterLevel storedLib gzipInvalidCompressionLevel = None"
    by (simp add: storedLib_def gzipInvalidCompressionLevel_def)
  with invalid_level_passthrough
         [where L = storedLib and level = gzipInvalidCompressionLevel and fn = None
            and w = NewRecorder and r = gzipRequest and nxt = testHTTPContent]
  show ?thesis
    by (simp add: body_next_raw written_def testHTTPContent_def gzipTestString_def NewRecorder_def)
qed

subsection \<open>Deciding twice\<close>



subsection \<open>Sniffing the content type on the first write\<close>

text \<open>
  C8. Let \<^verbatim>\<open>Write\<close> be called with a chunk \<open>b\<close> while the status is undefined and
  Content-Type is empty. Then the writer first sets Content-Type to what content sniffing
  answers for \<open>b\<close>, the chunk as the handler passed it; only then it consults the callback,
  which sees the header map with that Content-Type, and makes the compression header
  changes; the status is decided when \<^verbatim>\<open>Write\<close> returns, and Content-Type still holds the
  sniffed type. Version B commits the header with \<^verbatim>\<open>http.StatusOK\<close> in between. This holds
  in both versions.
\<close>

theorem sniff_before_transition:
  "status g = COMPRESSION_UNDEFINED \<and> Header_Get (Header_of g) headerContentType = []
   \<longrightarrow>
     status (Write_A L b g) =
       (if allowed (grw_Set headerContentType (DetectContentType L b) g)
        then COMPRESSION_ENABLED else COMPRESSION_DISABLED)
     \<and> trace (Write_A L b g) =
         trace g @ [EvHeaderSet headerContentType (DetectContentType L b)] @ allow_events g
         @ (if allowed (grw_Set headerContentType (DetectContentType L b) g)
            then [EvHeaderSet headerContentEncoding encodingGzip,
                  EvHeaderSet headerVary headerAcceptEncoding]
            else [])
         @ [if allowed (grw_Set headerContentType (DetectContentType L b) g)
            then EvGzWrite b else EvWrite b]
     \<and> Header_Get (Header_of (Write_A L b g)) headerContentType = DetectContentType L b
     \<and> status (Write_B L b g) =
       (if allowed (grw_Set headerContentType (DetectContentType L b) g)
        then COMPRESSION_ENABLED else COMPRESSION_DISABLED)
     \<and> trace (Write_B L b g) =
         trace g @ [EvHeaderSet headerContentType (DetectContentType L b)] @ allow_events g
         @ (if allowed (grw_Set headerContentType (DetectContentType L b) g)
            then [EvHeaderDel headerContentLength,
                  EvHeaderSet headerContentEncoding encodingGzip,
                  EvHeaderSet headerVary headerAcceptEncoding]
            else [])
         @ [EvWriteHeader StatusOK,
            if allowed (grw_Set headerContentType (DetectContentType L b) g)
            then EvGzWrite b else EvWrite b]
     \<and> Header_Get (Header_of (Write_B L b g)) headerContentType = DetectContentType L b"
proof
  assume "status g = COMPRESSION_UNDEFINED \<and> Header_Get (Header_of g) headerContentType = []"
  then have u: "status g = COMPRESSION_UNDEFINED"
    and e: "Header_Get (Header_of g) headerContentType = []"
    by simp_all
  show "status (Write_A L b g) =
       (if allowed (grw_Set headerContentType (DetectContentType L b) g)
        then COMPRESSION_ENABLED else COMPRESSION_DISABLED)
     \<and> trace (Write_A L b g) =
         trace g @ [EvHeaderSet headerContentType (DetectContentType L b)] @ allow_events g
         @ (if allowed (grw_Set headerContentType (DetectContentType L b) g)
            then [EvHeaderSet headerContentEncoding encodingGzip,
                  EvHeaderSet headerVary headerAcceptEncoding]
            else [])
         @ [if allowed (grw_Set headerContentType (DetectContentType L b) g)
            then EvGzWrite b else EvWrite b]
     \<and> Header_Get (Header_of (Write_A L b g)) headerContentType = DetectContentType L b
     \<and> status (Write_B L b g) =
       (if allowed (grw_Set headerContentType (DetectContentType L b) g)
        then COMPRESSION_ENABLED else COMPRESSION_DISABLED)
     \<and> trace (Write_B L b g) =
         trace g @ [EvHeaderSet headerContentType (DetectContentType L b)] @ allow_events g
         @ (if allowed (grw_Set headerContentType (DetectContentType L b) g)
            then [EvHeaderDel headerContentLength,
                  EvHeaderSet headerContentEncoding encodingGzip,
                  EvHeaderSet headerVary headerAcceptEncoding]
            else [])
         @ [EvWriteHeader StatusOK,
            if allowed (grw_Set headerContentType (DetectContentType L b) g)
            then EvGzWrite b else EvWrite b]
     \<and> Header_Get (Header_of (Write_B L b g)) headerContentType = DetectContentType L b"
    by (intro conjI first_Write_A [OF u e] first_Write_B [OF u e])
qed

text \<open>
  The theorem on the first write of the test string, behind a callback that allows
  compression only when the Content-Type it sees is the sniffed one.
\<close>

theorem sniff_before_transition_witness:
  "trace (Write_A storedLib gzipTestString
            (new_grw gzipRequest False NewRecorder (Some textOnly)))
     = [EvHeaderSet headerContentType ''text/plain; charset=utf-8'', EvAllow,
        EvHeaderSet headerContentEncoding encodingGzip,
        EvHeaderSet headerVary headerAcceptEncoding,
        EvGzWrite gzipTestString]
   \<and> trace (Write_B storedLib gzipTestString
            (new_grw gzipRequest False NewRecorder (Some textOnly)))
     = [EvHeaderSet headerContentType ''text/plain; charset=utf-8'', EvAllow,
        EvHeaderDel headerContentLength,
        EvHeaderSet headerContentEncoding encodingGzip,
        EvHeaderSet headerVary headerAcceptEncoding,
        EvWriteHeader StatusOK,
        EvGzWrite gzipTestString]
   \<and> status (Write_B storedLib gzipTestString
            (new_grw gzipRequest False NewRecorder (Some textOnly))) = COMPRESSION_ENABLED"
proof -
  have "status (new_grw gzipRequest False NewRecorder (Some textOnly)) = COMPRESSION_UNDEFINED
        \<and> Header_Get (Header_of (new_grw gzipRequest False NewRecorder (Some textOnly)))
             headerContentType = []"
    by (simp add: eval_defs)
  moreover have
    "allowed (grw_Set headerContentType (DetectContentType storedLib gzipTestString)
               (new_grw gzipRequest False NewRecorder (Some textOnly)))"
    by (simp add: eval_defs textOnly_def)
  moreover have "allow_events (new_grw gzipRequest False NewRecorder (Some textOnly)) = [EvAllow]"
    by (simp add: allow_events_def new_grw_def)
  moreover have "trace (new_grw gzipRequest False NewRecorder (Some textOnly)) = []"
    by (simp add: new_grw_def)
  moreover have "DetectContentType storedLib gzipTestString = ''text/plain; charset=utf-8''"
    by (simp add: storedLib_def)
  ultimately show ?thesis
    using sniff_before_transition
      [where g = "new_grw gzipRequest False NewRecorder (Some textOnly)" and L = storedLib
         and b = gzipTestString]
    by simp
qed

subsection \<open>The Vary header\<close>

text \<open>
  C9. When the transition enables compression, the values stored under Vary become the
  single value \<open>Accept-Encoding\<close>, whatever was stored there before: in version A after
  \<^verbatim>\<open>compressContent\<close>, in version B after \<^verbatim>\<open>WriteHeader\<close>, and in both after the \<^verbatim>\<open>Write\<close>
  that decides.
\<close>

theorem vary_replaced:
  "(status g = COMPRESSION_UNDEFINED \<and> allowed g
    \<longrightarrow> Header_of (snd (compressContent_A g)) (CanonicalHeaderKey headerVary)
          = Some [headerAcceptEncoding]
        \<and> Header_of (WriteHeader_B code g) (CanonicalHeaderKey headerVary)
          = Some [headerAcceptEncoding])
   \<and> (status g = COMPRESSION_UNDEFINED \<and> allowed (sniffContentType L b g)
    \<longrightarrow> Header_of (Write_A L b g) (CanonicalHeaderKey headerVary) = Some [headerAcceptEncoding]
        \<and> Header_of (Write_B L b g) (CanonicalHeaderKey headerVary) = Some [headerAcceptEncoding])"
  by (simp add: Header_of_compressContent_A Header_of_WriteHeader_B Header_of_Write_A
        Header_of_Write_B Header_Set_def status_simps)

text \<open>The theorem on a recorder whose Vary was \<open>Accept-Language\<close>.\<close>

theorem vary_replaced_witness:
  "headers recorderWithVary (CanonicalHeaderKey headerVary) = Some [''Accept-Language'']
   \<and> Header_of (snd (compressContent_A (new_grw gzipRequest False recorderWithVary None)))
        (CanonicalHeaderKey headerVary) = Some [''Accept-Encoding'']
   \<and> Header_of (WriteHeader_B 200 (new_grw gzipRequest False recorderWithVary None))
        (CanonicalHeaderKey headerVary) = Some [''Accept-Encoding'']"
proof -
  have "status (new_grw gzipRequest False recorderWithVary None) = COMPRESSION_UNDEFINED
        \<and> allowed (new_grw gzipRequest False recorderWithVary None)"
    by (simp add: new_grw_def allowed_def)
  moreover have "headers recorderWithVary (CanonicalHeaderKey headerVary) = Some [''Accept-Language'']"
    by (simp add: recorderWithVary_def Header_Set_def)
  ultimately show ?thesis
    using vary_replaced [where g = "new_grw gzipRequest False recorderWithVary None" and code = 200]
    by (simp add: headerAcceptEncoding_def)
qed

subsection \<open>The skip for a response that is already encoded\<close>

text \<open>
  C10. Let the request accept gzip and carry no Sec-WebSocket-Key, and let the level be
  valid. Then \<^verbatim>\<open>ServeHTTP\<close> hands the sink itself to the next handler exactly when reading
  the response's Content-Encoding gives the string \<open>gzip\<close>. For any other value it wraps the
  sink; and with no callback and a handler that makes a trigger call, the final status is
  enabled and what the sink received is the codec's stream of the bytes the handler
  wrote, although they were declared encoded already. This holds in both versions.
\<close>

theorem already_encoded_skip_is_exact:
  "Contains (Header_Get (Header r) headerAcceptEncoding) encodingGzip
   \<and> length (Header_Get (Header r) headerSecWebSocketKey) = 0
   \<and> NewWriterLevel L (compressionLevel h) = Some z
   \<longrightarrow>
     (final_status (ServeHTTP_A L h w r nxt) = None
        \<longleftrightarrow> Header_Get (headers w) headerContentEncoding = encodingGzip)
     \<and> (final_status (ServeHTTP_B L h w r nxt) = None
        \<longleftrightarrow> Header_Get (headers w) headerContentEncoding = encodingGzip)
     \<and> (Header_Get (headers w) headerContentEncoding \<noteq> encodingGzip
         \<and> h_allowCompression h = None \<and> (\<exists>c \<in> set nxt. trigger_A c)
        \<longrightarrow> final_status (ServeHTTP_A L h w r nxt) = Some COMPRESSION_ENABLED
            \<and> sent w (final_sink (ServeHTTP_A L h w r nxt)) = gzStream L z (payloads nxt))
     \<and> (Header_Get (headers w) headerContentEncoding \<noteq> encodingGzip
         \<and> h_allowCompression h = None \<and> (\<exists>c \<in> set nxt. trigger_B c)
        \<longrightarrow> final_status (ServeHTTP_B L h w r nxt) = Some COMPRESSION_ENABLED
            \<and> sent w (final_sink (ServeHTTP_B L h w r nxt)) = gzStream L z (payloads nxt))"
proof
  assume "Contains (Header_Get (Header r) headerAcceptEncoding) encodingGzip
   \<and> length (Header_Get (Header r) headerSecWebSocketKey) = 0
   \<and> NewWriterLevel L (compressionLevel h) = Some z"
  then have acc: "Contains (Header_Get (Header r) headerAcceptEncoding) encodingGzip"
    and ws: "length (Header_Get (Header r) headerSecWebSocketKey) = 0"
    and lvl: "NewWriterLevel L (compressionLevel h) = Some z"
    by simp_all
  note A = eligible_A [OF acc ws lvl, of w nxt]
  note B = eligible_B [OF acc ws lvl, of w nxt]
  have skipA: "final_status (ServeHTTP_A L h w r nxt) = None
        \<longleftrightarrow> Header_Get (headers w) headerContentEncoding = encodingGzip"
    by (simp add: A)
  have skipB: "final_status (ServeHTTP_B L h w r nxt) = None
        \<longleftrightarrow> Header_Get (headers w) headerContentEncoding = encodingGzip"
    by (simp add: B)
  have againA: "final_status (ServeHTTP_A L h w r nxt) = Some COMPRESSION_ENABLED
            \<and> sent w (final_sink (ServeHTTP_A L h w r nxt)) = gzStream L z (payloads nxt)"
    if "Header_Get (headers w) headerContentEncoding \<noteq> encodingGzip
         \<and> h_allowCompression h = None \<and> (\<exists>c \<in> set nxt. trigger_A c)"
  proof -
    from that have en: "status (next_A L (new_grw r z w (h_allowCompression h)) nxt)
                          = COMPRESSION_ENABLED"
      by (intro enabled_next_A) (simp_all add: allowCompression_new_grw status_new_grw)
    from that have "ServeHTTP_A L h w r nxt =
        Wrapped (deferred_A L (next_A L (new_grw r z w (h_allowCompression h)) nxt))"
      by (simp add: A)
    with en show ?thesis
      by (simp only: sent_Wrapped_A final_status_Wrapped_A) simp
  qed
  have againB: "final_status (ServeHTTP_B L h w r nxt) = Some COMPRESSION_ENABLED
            \<and> sent w (final_sink (ServeHTTP_B L h w r nxt)) = gzStream L z (payloads nxt)"
    if "Header_Get (headers w) headerContentEncoding \<noteq> encodingGzip
         \<and> h_allowCompression h = None \<and> (\<exists>c \<in> set nxt. trigger_B c)"
  proof -
    from that have en: "status (next_B L (new_grw r z w (h_allowCompression h)) nxt)
                          = COMPRESSION_ENABLED"
      by (intro enabled_next_B) (simp_all add: allowCompression_new_grw status_new_grw)
    from that have "ServeHTTP_B L h w r nxt =
        Wrapped (deferred_B L (next_B L (new_grw r z w (h_allowCompression h)) nxt))"
      by (simp add: B)
    with en show ?thesis
      by (simp only: sent_Wrapped_B final_status_Wrapped_B) simp
  qed
  from skipA skipB againA againB
  show "(final_status (ServeHTTP_A L h w r nxt) = None
        \<longleftrightarrow> Header_Get (headers w) headerContentEncoding = encodingGzip)
     \<and> (final_status (ServeHTTP_B L h w r nxt) = None
        \<longleftrightarrow> Header_Get (headers w) headerContentEncoding = encodingGzip)
     \<and> (Header_Get (headers w) headerContentEncoding \<noteq> encodingGzip
         \<and> h_allowCompression h = None \<and> (\<exists>c \<in> set nxt. trigger_A c)
        \<longrightarrow> final_status (ServeHTTP_A L h w r nxt) = Some COMPRESSION_ENABLED
            \<and> sent w (final_sink (ServeHTTP_A L h w r nxt)) = gzStream L z (payloads nxt))
     \<and> (Header_Get (headers w) headerContentEncoding \<noteq> encodingGzip
         \<and> h_allowCompression h = None \<and> (\<exists>c \<in> set nxt. trigger_B c)
        \<longrightarrow> final_status (ServeHTTP_B L h w r nxt) = Some COMPRESSION_ENABLED
            \<and> sent w (final_sink (ServeHTTP_B L h w r nxt)) = gzStream L z (payloads nxt))"
    by blast
qed

text \<open>
  The theorem on recorders whose Content-Encoding is \<open>br\<close> and \<open>gzip, identity\<close>, with the
  default middleware and the test handler.
\<close>

theorem already_encoded_skip_is_exact_witness:
  "final_status (ServeHTTP_A storedLib Default (recorderEncoded ''br'') gzipRequest testHTTPContent)
     = Some COMPRESSION_ENABLED
   \<and> final_status (ServeHTTP_B storedLib Default (recorderEncoded ''gzip, identity'') gzipRequest
        testHTTPContent) = Some COMPRESSION_ENABLED
   \<and> body (final_sink (ServeHTTP_B storedLib Default (recorderEncoded ''gzip, identity'')
        gzipRequest testHTTPContent)) = storedMagic @ gzipTestString @ storedTrailer
   \<and> final_status (ServeHTTP_B storedLib Default (recorderEncoded ''gzip'') gzipRequest
        testHTTPContent) = None"
proof -
  have acc: "Contains (Header_Get (Header gzipRequest) headerAcceptEncoding) encodingGzip
         \<and> length (Header_Get (Header gzipRequest) headerSecWebSocketKey) = 0
         \<and> NewWriterLevel storedLib (compressionLevel Default) = Some False"
    by (simp add: eval_defs)
  have ce: "Header_Get (headers (recorderEncoded ''br'')) headerContentEncoding \<noteq> encodingGzip"
    "Header_Get (headers (recorderEncoded ''gzip, identity'')) headerContentEncoding \<noteq> encodingGzip"
    "Header_Get (headers (recorderEncoded ''gzip'')) headerContentEncoding = encodingGzip"
    by (simp_all add: recorderEncoded_def eval_defs)
  have tr: "h_allowCompression Default = None" "\<exists>c \<in> set testHTTPContent. trigger_A c"
    "\<exists>c \<in> set testHTTPContent. trigger_B c"
    by (simp_all add: Default_def New_def testHTTPContent_def)
  have st: "gzStream storedLib False (payloads testHTTPContent)
              = storedMagic @ gzipTestString @ storedTrailer"
    by (simp add: stored_stream testHTTPContent_def del: gzStream.simps)
  have bd: "sent (recorderEncoded ''gzip, identity'') s = body s" for s
    by (simp add: sent_def recorderEncoded_def NewRecorder_def)
  from already_encoded_skip_is_exact
         [where r = gzipRequest and L = storedLib and h = Default and z = False
            and w = "recorderEncoded ''br''" and nxt = testHTTPContent]
       already_encoded_skip_is_exact
         [where r = gzipRequest and L = storedLib and h = Default and z = False
            and w = "recorderEncoded ''gzip, identity''" and nxt = testHTTPContent]
       already_encoded_skip_is_exact
         [where r = gzipRequest and L = storedLib and h = Default and z = False
            and w = "recorderEncoded ''gzip''" and nxt = testHTTPContent]
       acc ce tr st bd
  show ?thesis by simp
qed

end
